theory Spec2Isabelle
  imports Complex_Main
begin

section \<open>Data model (types.ts and the schema of db/db.ts)\<close>

text \<open>
  Identifiers are the UUID strings of \<^verbatim>\<open>crypto.randomUUID()\<close>. Times are the
  milliseconds of \<^verbatim>\<open>Date.getTime()\<close>; the ISO strings the tables store carry exactly
  this value. Credit and currency amounts are JavaScript numbers (binary64, stored in
  \<^verbatim>\<open>REAL\<close> columns). The model is of the calls whose amounts are whole numbers (the seed
  of 15, the price tables, ten credits per currency unit) and takes them as \<^typ>\<open>int\<close>:
  while the magnitudes stay within \<open>2^53\<close> the additions of the source are exact and are
  the additions of the model. Beyond that range, and on fractions, the source rounds; a
  property that depends on exact sums states the range.
\<close>

type_synonym ident = string
type_synonym timestamp = int

datatype transaction_type = Deposit | Withdrawal | Reward | Expiry

datatype payment_status = Pending | Completed | PaymentFailed | PaymentRefunded

datatype payment_method = Wechat | Alipay | Other

datatype usage_status = UsageSuccess | UsageFailed | UsageRefunded

text \<open>
  The description columns hold template strings with Chinese text; the model keeps the
  template and the interpolated values.
\<close>

datatype description =
    Text string
  | ServiceUse string
  | TopUp int
  | ServiceRefund string "string option"

record user_row =
  user_id :: ident
  user_username :: string
  user_email :: string
  user_phone :: "string option"
  user_passwordHash :: string
  user_salt :: string
  user_isVerified :: bool
  user_verificationToken :: "string option"
  user_createdAt :: timestamp
  user_updatedAt :: timestamp

record user_account =
  acc_userId :: ident
  acc_balance :: int
  acc_lastUpdated :: timestamp

record credit_transaction =
  tx_id :: ident
  tx_userId :: ident
  tx_type :: transaction_type
  tx_amount :: int
  tx_previousBalance :: int
  tx_currentBalance :: int
  tx_relatedOrder :: "string option"
  tx_description :: "description option"
  tx_createdAt :: timestamp

record payment =
  pay_id :: ident
  pay_userId :: ident
  pay_amount :: int
  pay_credits :: int
  pay_status :: payment_status
  pay_method :: payment_method
  pay_transactionId :: "string option"
  pay_createdAt :: timestamp
  pay_updatedAt :: timestamp

record service_usage =
  su_id :: ident
  su_userId :: ident
  su_serviceKey :: string
  su_creditsUsed :: int
  su_status :: usage_status
  su_details :: "string option"
  su_createdAt :: timestamp

text \<open>The five tables of \<^verbatim>\<open>initDb\<close>; a table is the list of its rows in insertion order.\<close>

record database =
  users :: "user_row list"
  user_accounts :: "user_account list"
  credit_transactions :: "credit_transaction list"
  payments :: "payment list"
  service_usages :: "service_usage list"

section \<open>The shared SQLite connection\<close>

text \<open>
  \<^verbatim>\<open>openDb\<close> hands every caller the same connection (\<^verbatim>\<open>dbInstance\<close>). A connection is
  the current content of the tables and, while a transaction is open, the content to which
  \<^verbatim>\<open>ROLLBACK\<close> returns. Outside a transaction every statement commits by itself.
  SQLite transactions do not nest (its documentation of \<^verbatim>\<open>BEGIN TRANSACTION\<close>: an
  attempt to invoke \<^verbatim>\<open>BEGIN\<close> within a transaction fails with an error), and
  \<^verbatim>\<open>COMMIT\<close> and \<^verbatim>\<open>ROLLBACK\<close> fail when no transaction is open. A failed
  statement changes nothing and rejects the promise of \<^verbatim>\<open>db.run\<close> with an
  \<^verbatim>\<open>Error\<close> whose message names the SQLite error.
\<close>

record connection =
  db :: database
  snapshot :: "database option"

datatype error = Error (error_message: string)

type_synonym 'a io = "connection \<Rightarrow> (error + 'a) \<times> connection"

definition io_return :: "'a \<Rightarrow> 'a io" where
  "io_return x c = (Inr x, c)"

definition io_throw :: "error \<Rightarrow> 'a io" where
  "io_throw e c = (Inl e, c)"

definition io_bind :: "'a io \<Rightarrow> ('a \<Rightarrow> 'b io) \<Rightarrow> 'b io" where
  "io_bind m f c = (case m c of (Inl e, c') \<Rightarrow> (Inl e, c') | (Inr x, c') \<Rightarrow> f x c')"

definition io_catch :: "'a io \<Rightarrow> (error \<Rightarrow> 'a io) \<Rightarrow> 'a io" where
  "io_catch m h c = (case m c of (Inl e, c') \<Rightarrow> h e c' | (Inr x, c') \<Rightarrow> (Inr x, c'))"

definition db_get :: "(database \<Rightarrow> 'a) \<Rightarrow> 'a io" where
  "db_get q c = (Inr (q (db c)), c)"

definition db_run :: "(database \<Rightarrow> error + database) \<Rightarrow> unit io" where
  "db_run stmt c =
     (case stmt (db c) of Inl e \<Rightarrow> (Inl e, c) | Inr d \<Rightarrow> (Inr (), c\<lparr>db := d\<rparr>))"

definition begin_transaction :: "unit io" where
  "begin_transaction c =
     (case snapshot c of
        Some s \<Rightarrow> (Inl (Error ''SQLITE_ERROR: cannot start a transaction within a transaction''), c)
      | None \<Rightarrow> (Inr (), c\<lparr>snapshot := Some (db c)\<rparr>))"

definition commit :: "unit io" where
  "commit c =
     (case snapshot c of
        None \<Rightarrow> (Inl (Error ''SQLITE_ERROR: cannot commit - no transaction is active''), c)
      | Some s \<Rightarrow> (Inr (), c\<lparr>snapshot := None\<rparr>))"

definition rollback :: "unit io" where
  "rollback c =
     (case snapshot c of
        None \<Rightarrow> (Inl (Error ''SQLITE_ERROR: cannot rollback - no transaction is active''), c)
      | Some s \<Rightarrow> (Inr (), c\<lparr>db := s, snapshot := None\<rparr>))"

subsection \<open>The SQL statements of the models\<close>

definition constraint_failed :: "string \<Rightarrow> error" where
  "constraint_failed col = Error (''SQLITE_CONSTRAINT: UNIQUE constraint failed: '' @ col)"

text \<open>
  \<^verbatim>\<open>INSERT INTO users\<close>: id is the primary key; username, email and phone are unique
  (a \<^verbatim>\<open>NULL\<close> phone collides with nothing). SQLite checks the unique indexes of a table
  from the one declared last to the one declared first, and reports the first it finds
  violated.
\<close>

definition insert_user :: "user_row \<Rightarrow> database \<Rightarrow> error + database" where
  "insert_user r d =
     (if user_phone r \<noteq> None \<and> user_phone r \<in> user_phone ` set (users d)
        then Inl (constraint_failed ''users.phone'')
      else if user_email r \<in> user_email ` set (users d)
        then Inl (constraint_failed ''users.email'')
      else if user_username r \<in> user_username ` set (users d)
        then Inl (constraint_failed ''users.username'')
      else if user_id r \<in> user_id ` set (users d) then Inl (constraint_failed ''users.id'')
      else Inr (d\<lparr>users := users d @ [r]\<rparr>))"

text \<open>\<^verbatim>\<open>INSERT INTO user_accounts (userId, balance, lastUpdated)\<close>.\<close>

definition insert_user_account :: "user_account \<Rightarrow> database \<Rightarrow> error + database" where
  "insert_user_account r d =
     (if acc_userId r \<in> acc_userId ` set (user_accounts d)
      then Inl (constraint_failed ''user_accounts.userId'')
      else Inr (d\<lparr>user_accounts := user_accounts d @ [r]\<rparr>))"

text \<open>\<^verbatim>\<open>SELECT * FROM user_accounts WHERE userId = ?\<close> (\<^verbatim>\<open>db.get\<close>: the first row or none).\<close>

definition select_user_account :: "ident \<Rightarrow> database \<Rightarrow> user_account option" where
  "select_user_account userId d = find (\<lambda>a. acc_userId a = userId) (user_accounts d)"

text \<open>\<^verbatim>\<open>UPDATE user_accounts SET balance = ?, lastUpdated = ? WHERE userId = ?\<close>.\<close>

definition update_user_account :: "int \<Rightarrow> timestamp \<Rightarrow> ident \<Rightarrow> database \<Rightarrow> error + database" where
  "update_user_account balance now userId d =
     Inr (d\<lparr>user_accounts :=
       map (\<lambda>a. if acc_userId a = userId
                 then a\<lparr>acc_balance := balance, acc_lastUpdated := now\<rparr> else a)
           (user_accounts d)\<rparr>)"

text \<open>\<^verbatim>\<open>UPDATE user_accounts SET balance = balance + ?, lastUpdated = ? WHERE userId = ?\<close>.\<close>

definition credit_user_account :: "int \<Rightarrow> timestamp \<Rightarrow> ident \<Rightarrow> database \<Rightarrow> error + database" where
  "credit_user_account amount now userId d =
     Inr (d\<lparr>user_accounts :=
       map (\<lambda>a. if acc_userId a = userId
                 then a\<lparr>acc_balance := acc_balance a + amount, acc_lastUpdated := now\<rparr> else a)
           (user_accounts d)\<rparr>)"

text \<open>\<^verbatim>\<open>INSERT INTO credit_transactions\<close>.\<close>

definition insert_credit_transaction :: "credit_transaction \<Rightarrow> database \<Rightarrow> error + database" where
  "insert_credit_transaction r d =
     (if tx_id r \<in> tx_id ` set (credit_transactions d)
      then Inl (constraint_failed ''credit_transactions.id'')
      else Inr (d\<lparr>credit_transactions := credit_transactions d @ [r]\<rparr>))"

text \<open>\<^verbatim>\<open>INSERT INTO payments\<close>, \<^verbatim>\<open>SELECT * FROM payments WHERE id = ?\<close> and
  \<^verbatim>\<open>UPDATE payments SET status = ?, transactionId = ?, updatedAt = ? WHERE id = ?\<close>.\<close>

definition insert_payment :: "payment \<Rightarrow> database \<Rightarrow> error + database" where
  "insert_payment r d =
     (if pay_id r \<in> pay_id ` set (payments d)
      then Inl (constraint_failed ''payments.id'')
      else Inr (d\<lparr>payments := payments d @ [r]\<rparr>))"

definition select_payment :: "ident \<Rightarrow> database \<Rightarrow> payment option" where
  "select_payment paymentId d = find (\<lambda>p. pay_id p = paymentId) (payments d)"

definition update_payment ::
  "payment_status \<Rightarrow> string option \<Rightarrow> timestamp \<Rightarrow> ident \<Rightarrow> database \<Rightarrow> error + database" where
  "update_payment status transactionId now paymentId d =
     Inr (d\<lparr>payments :=
       map (\<lambda>p. if pay_id p = paymentId
                 then p\<lparr>pay_status := status, pay_transactionId := transactionId,
                        pay_updatedAt := now\<rparr> else p)
           (payments d)\<rparr>)"

text \<open>\<^verbatim>\<open>INSERT INTO service_usages\<close>, \<^verbatim>\<open>SELECT * FROM service_usages WHERE id = ?\<close> and
  \<^verbatim>\<open>UPDATE service_usages SET status = ? WHERE id = ?\<close>.\<close>

definition insert_service_usage :: "service_usage \<Rightarrow> database \<Rightarrow> error + database" where
  "insert_service_usage r d =
     (if su_id r \<in> su_id ` set (service_usages d)
      then Inl (constraint_failed ''service_usages.id'')
      else Inr (d\<lparr>service_usages := service_usages d @ [r]\<rparr>))"

definition select_service_usage :: "ident \<Rightarrow> database \<Rightarrow> service_usage option" where
  "select_service_usage serviceUsageId d = find (\<lambda>u. su_id u = serviceUsageId) (service_usages d)"

definition update_service_usage :: "usage_status \<Rightarrow> ident \<Rightarrow> database \<Rightarrow> error + database" where
  "update_service_usage status serviceUsageId d =
     Inr (d\<lparr>service_usages :=
       map (\<lambda>u. if su_id u = serviceUsageId then u\<lparr>su_status := status\<rparr> else u)
           (service_usages d)\<rparr>)"

section \<open>models/userModel.ts\<close>

text \<open>
  \<^verbatim>\<open>createUser\<close>: the generated id and salt and the clock are arguments, as is the PBKDF2
  function \<^verbatim>\<open>hashPassword\<close>. Two statements outside any transaction: the user row, then
  the account row seeded with 15 credits.
\<close>

definition createUser ::
  "(string \<Rightarrow> string \<Rightarrow> string) \<Rightarrow> string \<Rightarrow> string \<Rightarrow> string \<Rightarrow> string option
   \<Rightarrow> ident \<Rightarrow> string \<Rightarrow> timestamp \<Rightarrow> user_row io" where
  "createUser hashPassword username email password phone newId salt now =
     (let passwordHash = hashPassword password salt;
          user = \<lparr>user_id = newId, user_username = username, user_email = email,
                  user_phone = phone, user_passwordHash = passwordHash, user_salt = salt,
                  user_isVerified = True, user_verificationToken = None,
                  user_createdAt = now, user_updatedAt = now\<rparr>
      in io_bind (db_run (insert_user user)) (\<lambda>_.
         io_bind (db_run (insert_user_account
                    \<lparr>acc_userId = newId, acc_balance = 15, acc_lastUpdated = now\<rparr>)) (\<lambda>_.
         io_return user)))"

section \<open>models/accountModel.ts\<close>

definition getUserAccount :: "ident \<Rightarrow> user_account option io" where
  "getUserAccount userId = db_get (select_user_account userId)"

text \<open>
  \<^verbatim>\<open>updateUserBalance\<close>. \<^verbatim>\<open>BEGIN TRANSACTION\<close> runs before the \<^verbatim>\<open>try\<close>, so its
  failure rejects the call; everything after it is inside the \<^verbatim>\<open>try\<close>, whose handler
  rolls back and returns \<^verbatim>\<open>false\<close>.
\<close>

definition updateUserBalance_try ::
  "ident \<Rightarrow> int \<Rightarrow> transaction_type \<Rightarrow> description option \<Rightarrow> string option
   \<Rightarrow> timestamp \<Rightarrow> ident \<Rightarrow> bool io" where
  "updateUserBalance_try userId amount type description relatedOrder now transactionId =
     io_bind (db_get (select_user_account userId)) (\<lambda>account.
       case account of
         None \<Rightarrow> io_throw (Error ''User account not found'')
       | Some acc \<Rightarrow>
          (let previousBalance = acc_balance acc;
               currentBalance = previousBalance + amount
           in if type = Withdrawal \<and> currentBalance < 0
              then io_throw (Error ''Insufficient balance'')
              else
                io_bind (db_run (update_user_account currentBalance now userId)) (\<lambda>_.
                io_bind (db_run (insert_credit_transaction
                   \<lparr>tx_id = transactionId, tx_userId = userId, tx_type = type,
                    tx_amount = amount, tx_previousBalance = previousBalance,
                    tx_currentBalance = currentBalance, tx_relatedOrder = relatedOrder,
                    tx_description = description, tx_createdAt = now\<rparr>)) (\<lambda>_.
                io_bind commit (\<lambda>_.
                io_return True)))))"

definition updateUserBalance ::
  "ident \<Rightarrow> int \<Rightarrow> transaction_type \<Rightarrow> description option \<Rightarrow> string option
   \<Rightarrow> timestamp \<Rightarrow> ident \<Rightarrow> bool io" where
  "updateUserBalance userId amount type description relatedOrder now transactionId =
     io_bind begin_transaction (\<lambda>_.
       io_catch
         (updateUserBalance_try userId amount type description relatedOrder now transactionId)
         (\<lambda>error. io_bind rollback (\<lambda>_. io_return False)))"

subsection \<open>JavaScript values where the source leaves the number type\<close>

text \<open>
  A property read on an object literal finds the literal's own properties and then those it
  inherits from \<^verbatim>\<open>Object.prototype\<close> (functions, and the prototype object itself for
  \<^verbatim>\<open>__proto__\<close>), and is \<^verbatim>\<open>undefined\<close> otherwise. \<^verbatim>\<open>a || b\<close> is \<^verbatim>\<open>a\<close> when it is
  truthy. \<^verbatim>\<open>x >= y\<close> converts \<^verbatim>\<open>y\<close> to a number: a function, an object and
  \<^verbatim>\<open>undefined\<close> become \<^verbatim>\<open>NaN\<close>, and every comparison with \<^verbatim>\<open>NaN\<close> is false.
\<close>

datatype js_value = JNumber int | JUndefined | JObject string

definition object_prototype :: "string list" where
  "object_prototype =
     [''constructor'', ''__defineGetter__'', ''__defineSetter__'', ''hasOwnProperty'',
      ''__lookupGetter__'', ''__lookupSetter__'', ''isPrototypeOf'', ''propertyIsEnumerable'',
      ''toString'', ''valueOf'', ''__proto__'', ''toLocaleString'']"

definition js_get :: "(string \<times> int) list \<Rightarrow> string \<Rightarrow> js_value" where
  "js_get obj key =
     (case map_of obj key of
        Some n \<Rightarrow> JNumber n
      | None \<Rightarrow> if key \<in> set object_prototype then JObject key else JUndefined)"

fun truthy :: "js_value \<Rightarrow> bool" where
  "truthy (JNumber n) = (n \<noteq> 0)"
| "truthy JUndefined = False"
| "truthy (JObject f) = True"

definition js_or :: "js_value \<Rightarrow> js_value \<Rightarrow> js_value" where
  "js_or a b = (if truthy a then a else b)"

fun js_ge :: "int \<Rightarrow> js_value \<Rightarrow> bool" where
  "js_ge x (JNumber n) = (x \<ge> n)"
| "js_ge x JUndefined = False"
| "js_ge x (JObject f) = False"

subsection \<open>Balance check and the convenience wrappers\<close>

definition checkBalance :: "ident \<Rightarrow> js_value \<Rightarrow> bool io" where
  "checkBalance userId requiredAmount =
     io_bind (getUserAccount userId) (\<lambda>account.
       case account of
         None \<Rightarrow> io_return False
       | Some acc \<Rightarrow> io_return (js_ge (acc_balance acc) requiredAmount))"

definition depositCredits ::
  "ident \<Rightarrow> int \<Rightarrow> string option \<Rightarrow> description option \<Rightarrow> timestamp \<Rightarrow> ident \<Rightarrow> bool io" where
  "depositCredits userId amount relatedOrder description =
     updateUserBalance userId amount Deposit description relatedOrder"

definition withdrawCredits ::
  "ident \<Rightarrow> int \<Rightarrow> string option \<Rightarrow> description option \<Rightarrow> timestamp \<Rightarrow> ident \<Rightarrow> bool io" where
  "withdrawCredits userId amount relatedOrder description =
     updateUserBalance userId (- amount) Withdrawal description relatedOrder"

definition deductCredits ::
  "ident \<Rightarrow> int \<Rightarrow> string option \<Rightarrow> description option \<Rightarrow> timestamp \<Rightarrow> ident \<Rightarrow> bool io" where
  "deductCredits = withdrawCredits"

definition rewardCredits ::
  "ident \<Rightarrow> int \<Rightarrow> description option \<Rightarrow> timestamp \<Rightarrow> ident \<Rightarrow> bool io" where
  "rewardCredits userId amount description =
     updateUserBalance userId amount Reward description None"

section \<open>models/paymentModel.ts\<close>

text \<open>\<^verbatim>\<open>createPayment\<close>; an omitted \<^verbatim>\<open>creditsRate\<close> is 10.\<close>

definition createPayment ::
  "ident \<Rightarrow> int \<Rightarrow> payment_method \<Rightarrow> int option \<Rightarrow> ident \<Rightarrow> timestamp \<Rightarrow> payment io" where
  "createPayment userId amount method creditsRate newId now =
     (let credits = amount * (case creditsRate of None \<Rightarrow> 10 | Some rate \<Rightarrow> rate);
          row = \<lparr>pay_id = newId, pay_userId = userId, pay_amount = amount,
                 pay_credits = credits, pay_status = Pending, pay_method = method,
                 pay_transactionId = None, pay_createdAt = now, pay_updatedAt = now\<rparr>
      in io_bind (db_run (insert_payment row)) (\<lambda>_. io_return row))"

definition getPaymentById :: "ident \<Rightarrow> payment option io" where
  "getPaymentById paymentId = db_get (select_payment paymentId)"

text \<open>
  \<^verbatim>\<open>updatePaymentStatus\<close>. The deposit is the call of \<^verbatim>\<open>depositCredits\<close> on the same
  connection, inside the transaction this function opened; its returned boolean is not
  looked at, its rejection is caught by the \<^verbatim>\<open>try\<close>. \<open>depositNow\<close> and
  \<open>depositId\<close> are the clock and the generated id of that inner call.
\<close>

definition updatePaymentStatus_try ::
  "ident \<Rightarrow> payment_status \<Rightarrow> string option \<Rightarrow> timestamp \<Rightarrow> timestamp \<Rightarrow> ident \<Rightarrow> bool io" where
  "updatePaymentStatus_try paymentId status transactionId now depositNow depositId =
     io_bind (getPaymentById paymentId) (\<lambda>payment.
       case payment of
         None \<Rightarrow> io_throw (Error ''Payment not found'')
       | Some p \<Rightarrow>
           if pay_status p \<noteq> Pending then io_throw (Error ''Payment is not pending'')
           else
             io_bind (db_run (update_payment status transactionId now paymentId)) (\<lambda>_.
             io_bind (if status = Completed
                      then io_bind (depositCredits (pay_userId p) (pay_credits p)
                                      (Some paymentId) (Some (TopUp (pay_credits p)))
                                      depositNow depositId) (\<lambda>_. io_return ())
                      else io_return ()) (\<lambda>_.
             io_bind commit (\<lambda>_.
             io_return True))))"

definition updatePaymentStatus ::
  "ident \<Rightarrow> payment_status \<Rightarrow> string option \<Rightarrow> timestamp \<Rightarrow> timestamp \<Rightarrow> ident \<Rightarrow> bool io" where
  "updatePaymentStatus paymentId status transactionId now depositNow depositId =
     io_bind begin_transaction (\<lambda>_.
       io_catch
         (updatePaymentStatus_try paymentId status transactionId now depositNow depositId)
         (\<lambda>error. io_bind rollback (\<lambda>_. io_return False)))"

definition handlePaymentCallback ::
  "ident \<Rightarrow> string \<Rightarrow> bool \<Rightarrow> timestamp \<Rightarrow> timestamp \<Rightarrow> ident \<Rightarrow> bool io" where
  "handlePaymentCallback paymentId transactionId success =
     updatePaymentStatus paymentId (if success then Completed else PaymentFailed)
       (Some transactionId)"

section \<open>models/serviceModel.ts\<close>

definition createServiceUsage ::
  "ident \<Rightarrow> string \<Rightarrow> int \<Rightarrow> usage_status \<Rightarrow> string option \<Rightarrow> ident \<Rightarrow> timestamp
   \<Rightarrow> service_usage io" where
  "createServiceUsage userId serviceKey creditsUsed status details newId now =
     (let row = \<lparr>su_id = newId, su_userId = userId, su_serviceKey = serviceKey,
                 su_creditsUsed = creditsUsed, su_status = status, su_details = details,
                 su_createdAt = now\<rparr>
      in io_bind (db_run (insert_service_usage row)) (\<lambda>_. io_return row))"

record consume_result =
  success :: bool
  message :: "string option"
  serviceUsage :: "service_usage option"

text \<open>
  \<^verbatim>\<open>consumeService\<close>. \<open>withdrawNow\<close> and \<open>withdrawId\<close> are the clock and the
  generated id of the inner \<^verbatim>\<open>updateUserBalance\<close>; \<open>usageId\<close> and \<open>usageNow\<close>
  those of the one call of \<^verbatim>\<open>createServiceUsage\<close> each path makes.
\<close>

definition consumeService_try ::
  "ident \<Rightarrow> string \<Rightarrow> int \<Rightarrow> string option \<Rightarrow> timestamp \<Rightarrow> ident \<Rightarrow> ident \<Rightarrow> timestamp
   \<Rightarrow> consume_result io" where
  "consumeService_try userId serviceKey credits details withdrawNow withdrawId usageId usageNow =
     io_bind (checkBalance userId (JNumber credits)) (\<lambda>hasEnoughBalance.
       if \<not> hasEnoughBalance then io_throw (Error ''Insufficient balance'')
       else
         io_bind (withdrawCredits userId credits None (Some (ServiceUse serviceKey))
                    withdrawNow withdrawId) (\<lambda>withdrawSuccess.
           if \<not> withdrawSuccess then io_throw (Error ''Failed to withdraw credits'')
           else
             io_bind (createServiceUsage userId serviceKey credits UsageSuccess details
                        usageId usageNow) (\<lambda>usage.
             io_bind commit (\<lambda>_.
             io_return \<lparr>success = True, message = None, serviceUsage = Some usage\<rparr>))))"

definition consumeService ::
  "ident \<Rightarrow> string \<Rightarrow> int \<Rightarrow> string option \<Rightarrow> timestamp \<Rightarrow> ident \<Rightarrow> ident \<Rightarrow> timestamp
   \<Rightarrow> consume_result io" where
  "consumeService userId serviceKey credits details withdrawNow withdrawId usageId usageNow =
     io_bind begin_transaction (\<lambda>_.
       io_catch
         (consumeService_try userId serviceKey credits details
            withdrawNow withdrawId usageId usageNow)
         (\<lambda>error.
            io_bind rollback (\<lambda>_.
            let errorMessage = error_message error in
            io_bind (createServiceUsage userId serviceKey credits UsageFailed
                       (Some ((case details of None \<Rightarrow> [] | Some d \<Rightarrow> d)
                              @ '' - Error: '' @ errorMessage))
                       usageId usageNow) (\<lambda>_.
            io_return \<lparr>success = False, message = Some errorMessage,
                       serviceUsage = None\<rparr>))))"

definition servicePricing :: "(string \<times> int) list" where
  "servicePricing =
     [(''ai-image-edit'', 5), (''ai-image-generate'', 10), (''high-resolution-edit'', 15),
      (''batch-processing'', 20), (''remove-background'', 3), (''enhance-image'', 4),
      (''resize-image'', 2)]"

definition getServicePrice :: "string \<Rightarrow> js_value" where
  "getServicePrice serviceKey = js_or (js_get servicePricing serviceKey) (JNumber 0)"

text \<open>\<^verbatim>\<open>refundServiceConsumption\<close>; \<open>now\<close> is its \<^verbatim>\<open>new Date()\<close>.\<close>

definition refundServiceConsumption_try ::
  "ident \<Rightarrow> string option \<Rightarrow> timestamp \<Rightarrow> ident \<Rightarrow> bool io" where
  "refundServiceConsumption_try serviceUsageId reason now transactionId =
     io_bind (db_get (select_service_usage serviceUsageId)) (\<lambda>serviceUsage.
       case serviceUsage of
         None \<Rightarrow> io_throw (Error ''Invalid service usage record'')
       | Some u \<Rightarrow>
           if su_status u \<noteq> UsageSuccess then io_throw (Error ''Invalid service usage record'')
           else
             (let usageTime = su_createdAt u;
                  timeDiff = now - usageTime;
                  hoursDiff = (real_of_int timeDiff) / (1000 * 60 * 60)
              in if hoursDiff > 24 then io_throw (Error ''Refund period expired'')
                 else
                   io_bind (db_run (credit_user_account (su_creditsUsed u) now (su_userId u))) (\<lambda>_.
                   io_bind (db_run (update_service_usage UsageRefunded serviceUsageId)) (\<lambda>_.
                   io_bind (db_run (insert_credit_transaction
                      \<lparr>tx_id = transactionId, tx_userId = su_userId u, tx_type = Reward,
                       tx_amount = su_creditsUsed u,
                       tx_previousBalance = su_creditsUsed u - su_creditsUsed u,
                       tx_currentBalance = su_creditsUsed u,
                       tx_relatedOrder = Some serviceUsageId,
                       tx_description = Some (ServiceRefund (su_serviceKey u) reason),
                       tx_createdAt = now\<rparr>)) (\<lambda>_.
                   io_bind commit (\<lambda>_.
                   io_return True))))))"

definition refundServiceConsumption ::
  "ident \<Rightarrow> string option \<Rightarrow> timestamp \<Rightarrow> ident \<Rightarrow> bool io" where
  "refundServiceConsumption serviceUsageId reason now transactionId =
     io_bind begin_transaction (\<lambda>_.
       io_catch
         (refundServiceConsumption_try serviceUsageId reason now transactionId)
         (\<lambda>error. io_bind rollback (\<lambda>_. io_return False)))"

section \<open>The balance check of the service routes\<close>

text \<open>The route file that calls the image service: its price table and its helper.\<close>

record balance_check =
  hasSufficientBalance :: bool
  requiredCredits :: js_value

definition SERVICE_PRICES :: "(string \<times> int) list" where
  "SERVICE_PRICES = [(''ai-image-edit'', 3)]"

definition checkUserBalance :: "ident \<Rightarrow> string \<Rightarrow> balance_check io" where
  "checkUserBalance userId serviceName =
     (let required = js_or (js_get SERVICE_PRICES serviceName) (JNumber 0)
      in io_bind (checkBalance userId required) (\<lambda>sufficient.
         io_return \<lparr>hasSufficientBalance = sufficient, requiredCredits = required\<rparr>))"

text \<open>The second route file (image edit and video generation stubs) has its own copy.\<close>

definition SERVICE_PRICES_video :: "(string \<times> int) list" where
  "SERVICE_PRICES_video = [(''ai-image-edit'', 5), (''ai-video-generate'', 20)]"

definition checkUserBalance_video :: "ident \<Rightarrow> string \<Rightarrow> balance_check io" where
  "checkUserBalance_video userId serviceName =
     (let required = js_or (js_get SERVICE_PRICES_video serviceName) (JNumber 0)
      in io_bind (getUserAccount userId) (\<lambda>account.
         let balance = (case account of None \<Rightarrow> 0 | Some acc \<Rightarrow> acc_balance acc)
         in io_return \<lparr>hasSufficientBalance = js_ge balance required,
                        requiredCredits = required\<rparr>))"

section \<open>Notions used by the properties\<close>

text \<open>The sum of the amounts of a user's rows in the audit log.\<close>

definition transaction_sum :: "ident \<Rightarrow> database \<Rightarrow> int" where
  "transaction_sum userId d =
     sum_list (map tx_amount (filter (\<lambda>t. tx_userId t = userId) (credit_transactions d)))"

definition balanced_row :: "credit_transaction \<Rightarrow> bool" where
  "balanced_row t = (tx_previousBalance t + tx_amount t = tx_currentBalance t)"

text \<open>What \<^const>\<open>checkBalance\<close> answers for a number.\<close>

definition sufficient :: "ident \<Rightarrow> int \<Rightarrow> database \<Rightarrow> bool" where
  "sufficient userId credits d =
     (case select_user_account userId d of
        None \<Rightarrow> False
      | Some acc \<Rightarrow> credits \<le> acc_balance acc)"

text \<open>
  One call of an operation of the models on the shared connection, with any arguments, any
  clock and any generated identifiers; the states reachable from the empty tables that
  \<^verbatim>\<open>initDb\<close> creates.
\<close>

definition initial_connection :: connection where
  "initial_connection =
     \<lparr>db = \<lparr>users = [], user_accounts = [], credit_transactions = [], payments = [],
            service_usages = []\<rparr>,
      snapshot = None\<rparr>"

inductive step :: "connection \<Rightarrow> connection \<Rightarrow> bool" where
  step_createUser:
    "step c (snd (createUser hashPassword username email password phone newId salt now c))"
| step_updateUserBalance:
    "step c (snd (updateUserBalance userId amount type description relatedOrder now
                    transactionId c))"
| step_createPayment:
    "step c (snd (createPayment userId amount method creditsRate newId now c))"
| step_updatePaymentStatus:
    "step c (snd (updatePaymentStatus paymentId status transactionId now depositNow depositId c))"
| step_consumeService:
    "step c (snd (consumeService userId serviceKey credits details withdrawNow withdrawId
                    usageId usageNow c))"
| step_refundServiceConsumption:
    "step c (snd (refundServiceConsumption serviceUsageId reason now transactionId c))"

inductive reachable :: "connection \<Rightarrow> bool" where
  reachable_initial: "reachable initial_connection"
| reachable_step: "reachable c \<Longrightarrow> step c c' \<Longrightarrow> reachable c'"

text \<open>
  The invariant of the ledger: no transaction is left open; every balance is the seed of 15
  plus the user's audit rows; audit rows and successful usages belong to users that have
  an account.
\<close>

definition account_ids :: "database \<Rightarrow> ident set" where
  "account_ids d = acc_userId ` set (user_accounts d)"

definition ledger_consistent :: "database \<Rightarrow> bool" where
  "ledger_consistent d \<longleftrightarrow>
     (\<forall>a \<in> set (user_accounts d). acc_balance a = 15 + transaction_sum (acc_userId a) d)
     \<and> tx_userId ` set (credit_transactions d) \<subseteq> account_ids d
     \<and> su_userId ` {u \<in> set (service_usages d). su_status u = UsageSuccess} \<subseteq> account_ids d"

definition ledger_invariant :: "connection \<Rightarrow> bool" where
  "ledger_invariant c \<longleftrightarrow> snapshot c = None \<and> ledger_consistent (db c)"

text \<open>The connection after one registration on the empty tables.\<close>

definition alice_connection :: connection where
  "alice_connection =
     snd (createUser (\<lambda>password salt. salt @ password) ''alice'' ''alice@example.org''
            ''secret'' None ''user-1'' ''5a17'' 1000 initial_connection)"

text \<open>
  The tables after the withdrawal and the usage row that a completed consumption of
  \<^verbatim>\<open>ai-image-edit\<close> for 5 credits consists of.
\<close>

definition served_connection :: connection where
  "served_connection =
     snd (createServiceUsage ''user-1'' ''ai-image-edit'' 5 UsageSuccess None ''use-1'' 2001
       (snd (withdrawCredits ''user-1'' 5 None (Some (ServiceUse ''ai-image-edit'')) 2000
               ''tx-1'' alice_connection)))"

text \<open>The registered user after \<^verbatim>\<open>createPayment(userId, 10, 'wechat')\<close>, and after an
  expiry of 16 credits.\<close>

definition invoiced_connection :: connection where
  "invoiced_connection =
     snd (createPayment ''user-1'' 10 Wechat None ''pay-1'' 3000 alice_connection)"

definition overdrawn_connection :: connection where
  "overdrawn_connection =
     snd (updateUserBalance ''user-1'' (- 16) Expiry None None 2000 ''tx-1'' alice_connection)"

text \<open>
  The connection on which \<^const>\<open>consumeService\<close> calls \<^const>\<open>withdrawCredits\<close> for the
  registered user (its transaction is open), and the one on which
  \<^const>\<open>updatePaymentStatus\<close> calls \<^const>\<open>depositCredits\<close> for the pending payment (its
  transaction is open and the payment row updated).
\<close>

definition consuming_connection :: connection where
  "consuming_connection = snd (begin_transaction alice_connection)"

definition completing_connection :: connection where
  "completing_connection =
     snd (db_run (update_payment Completed (Some ''txn1'') 4000 ''pay-1'')
            (snd (begin_transaction invoiced_connection)))"

text \<open>
  The range in which the balances of a user have been computed exactly: the seed and the
  magnitudes of the amounts of the user's audit rows add up to at most \<open>2^53\<close>, so every
  balance the account has had is a whole number of at most that magnitude.
\<close>

definition exact_range :: "ident \<Rightarrow> database \<Rightarrow> bool" where
  "exact_range userId d \<longleftrightarrow>
     15 + sum_list (map (\<lambda>t. \<bar>tx_amount t\<bar>)
            (filter (\<lambda>t. tx_userId t = userId) (credit_transactions d))) \<le> 2 ^ 53"

section \<open>What each operation does on the connection\<close>

lemmas io_defs = io_return_def io_throw_def io_bind_def io_catch_def db_get_def db_run_def
  begin_transaction_def commit_def rollback_def

lemma alice_connection_eq:
  "alice_connection =
     \<lparr>db = \<lparr>users = [\<lparr>user_id = ''user-1'', user_username = ''alice'',
                       user_email = ''alice@example.org'', user_phone = None,
                       user_passwordHash = ''5a17secret'', user_salt = ''5a17'',
                       user_isVerified = True, user_verificationToken = None,
                       user_createdAt = 1000, user_updatedAt = 1000\<rparr>],
            user_accounts = [\<lparr>acc_userId = ''user-1'', acc_balance = 15,
                               acc_lastUpdated = 1000\<rparr>],
            credit_transactions = [], payments = [], service_usages = []\<rparr>,
      snapshot = None\<rparr>"
  by (simp add: alice_connection_def initial_connection_def createUser_def insert_user_def
        insert_user_account_def Let_def io_defs)

text \<open>Inside an open transaction the call is rejected at its own \<^verbatim>\<open>BEGIN\<close>.\<close>

lemma updateUserBalance_in_transaction:
  "snapshot c = Some s \<Longrightarrow>
   updateUserBalance userId amount type description relatedOrder now transactionId c =
     (Inl (Error ''SQLITE_ERROR: cannot start a transaction within a transaction''), c)"
  by (simp add: updateUserBalance_def io_defs)

lemma updateUserBalance_idle:
  assumes "snapshot c = None"
  shows "updateUserBalance userId amount type description relatedOrder now transactionId c =
     (case select_user_account userId (db c) of
        None \<Rightarrow> (Inr False, c)
      | Some acc \<Rightarrow>
          if type = Withdrawal \<and> acc_balance acc + amount < 0 then (Inr False, c)
          else if transactionId \<in> tx_id ` set (credit_transactions (db c)) then (Inr False, c)
          else (Inr True, c\<lparr>db := (db c)\<lparr>
                 user_accounts :=
                   map (\<lambda>a. if acc_userId a = userId
                             then a\<lparr>acc_balance := acc_balance acc + amount,
                                    acc_lastUpdated := now\<rparr> else a)
                       (user_accounts (db c)),
                 credit_transactions := credit_transactions (db c) @
                   [\<lparr>tx_id = transactionId, tx_userId = userId, tx_type = type,
                     tx_amount = amount, tx_previousBalance = acc_balance acc,
                     tx_currentBalance = acc_balance acc + amount,
                     tx_relatedOrder = relatedOrder, tx_description = description,
                     tx_createdAt = now\<rparr>]\<rparr>\<rparr>))"
  using assms
  by (cases c)
     (simp add: updateUserBalance_def updateUserBalance_try_def io_defs Let_def
        update_user_account_def insert_credit_transaction_def
        split: option.splits)

lemma find_Some_set: "find P xs = Some x \<Longrightarrow> x \<in> set xs \<and> P x"
  by (induction xs) (auto split: if_splits)

lemma select_user_account_map:
  assumes "\<And>a. acc_userId (g a) = acc_userId a"
  shows "find (\<lambda>a. acc_userId a = u) (map (\<lambda>a. if acc_userId a = u then g a else a) xs)
       = map_option g (find (\<lambda>a. acc_userId a = u) xs)"
  by (induction xs) (simp_all add: assms)

lemma updateUserBalance_withdrawal_nonneg:
  assumes idle: "snapshot c = None"
    and ok: "updateUserBalance userId amount Withdrawal description relatedOrder now transactionId c
             = (Inr True, c')"
    and a: "a \<in> set (user_accounts (db c'))" and u: "acc_userId a = userId"
  shows "0 \<le> acc_balance a"
proof (cases "select_user_account userId (db c)")
  case None
  with ok show ?thesis by (simp add: updateUserBalance_idle [OF idle])
next
  case (Some acc)
  from ok have ge: "0 \<le> acc_balance acc + amount"
    and c': "user_accounts (db c') =
          map (\<lambda>a. if acc_userId a = userId
                    then a\<lparr>acc_balance := acc_balance acc + amount, acc_lastUpdated := now\<rparr>
                    else a)
              (user_accounts (db c))"
    by (auto simp add: updateUserBalance_idle [OF idle] Some split: if_splits)
  from a obtain x where "x \<in> set (user_accounts (db c))"
    and "a = (if acc_userId x = userId
              then x\<lparr>acc_balance := acc_balance acc + amount, acc_lastUpdated := now\<rparr> else x)"
    unfolding c' by auto
  with u ge show ?thesis by (simp split: if_splits)
qed

lemma checkBalance_number:
  "checkBalance userId (JNumber credits) c = (Inr (sufficient userId credits (db c)), c)"
  by (simp add: checkBalance_def getUserAccount_def sufficient_def io_defs split: option.splits)

lemma createUser_result:
  "createUser hashPassword username email password phone newId salt now c =
     (let user = \<lparr>user_id = newId, user_username = username, user_email = email,
                  user_phone = phone, user_passwordHash = hashPassword password salt,
                  user_salt = salt, user_isVerified = True, user_verificationToken = None,
                  user_createdAt = now, user_updatedAt = now\<rparr>
      in case insert_user user (db c) of
           Inl e \<Rightarrow> (Inl e, c)
         | Inr d \<Rightarrow>
             if newId \<in> acc_userId ` set (user_accounts d)
             then (Inl (constraint_failed ''user_accounts.userId''), c\<lparr>db := d\<rparr>)
             else (Inr user,
                   c\<lparr>db := d\<lparr>user_accounts := user_accounts d @
                     [\<lparr>acc_userId = newId, acc_balance = 15, acc_lastUpdated = now\<rparr>]\<rparr>\<rparr>))"
  by (simp add: createUser_def insert_user_account_def Let_def io_defs split: sum.splits)

lemma insert_user_tables:
  "insert_user r d = Inr d' \<Longrightarrow>
     user_accounts d' = user_accounts d \<and> credit_transactions d' = credit_transactions d
     \<and> payments d' = payments d \<and> service_usages d' = service_usages d"
  by (auto simp add: insert_user_def split: if_splits)

lemma createPayment_result:
  "createPayment userId amount method creditsRate newId now c =
     (let row = \<lparr>pay_id = newId, pay_userId = userId, pay_amount = amount,
                 pay_credits = amount * (case creditsRate of None \<Rightarrow> 10 | Some rate \<Rightarrow> rate),
                 pay_status = Pending, pay_method = method,
                 pay_transactionId = None, pay_createdAt = now, pay_updatedAt = now\<rparr>
      in if newId \<in> pay_id ` set (payments (db c))
         then (Inl (constraint_failed ''payments.id''), c)
         else (Inr row, c\<lparr>db := (db c)\<lparr>payments := payments (db c) @ [row]\<rparr>\<rparr>))"
  by (simp add: createPayment_def insert_payment_def Let_def io_defs)

text \<open>
  \<^const>\<open>consumeService\<close> opens a transaction and then calls \<^const>\<open>withdrawCredits\<close>,
  whose own \<^verbatim>\<open>BEGIN\<close> is rejected; the rejection is caught, the transaction rolled
  back and a failed usage recorded.
\<close>

lemma consumeService_in_transaction:
  "snapshot c = Some s \<Longrightarrow>
   consumeService userId serviceKey credits details withdrawNow withdrawId usageId usageNow c =
     (Inl (Error ''SQLITE_ERROR: cannot start a transaction within a transaction''), c)"
  by (simp add: consumeService_def io_defs)

lemma consumeService_idle:
  assumes "snapshot c = None"
  shows "consumeService userId serviceKey credits details withdrawNow withdrawId usageId usageNow c =
     (let errorMessage =
            (if sufficient userId credits (db c)
             then ''SQLITE_ERROR: cannot start a transaction within a transaction''
             else ''Insufficient balance'')
      in if usageId \<in> su_id ` set (service_usages (db c))
         then (Inl (constraint_failed ''service_usages.id''), c)
         else (Inr \<lparr>success = False, message = Some errorMessage, serviceUsage = None\<rparr>,
               c\<lparr>db := (db c)\<lparr>service_usages := service_usages (db c) @
                   [\<lparr>su_id = usageId, su_userId = userId, su_serviceKey = serviceKey,
                     su_creditsUsed = credits, su_status = UsageFailed,
                     su_details = Some ((case details of None \<Rightarrow> [] | Some d \<Rightarrow> d)
                                        @ '' - Error: '' @ errorMessage),
                     su_createdAt = usageNow\<rparr>]\<rparr>\<rparr>))"
proof -
  obtain d where c: "c = \<lparr>db = d, snapshot = None\<rparr>"
    using assms by (cases c) simp
  have inner: "withdrawCredits userId credits None (Some (ServiceUse serviceKey))
                 withdrawNow withdrawId \<lparr>db = d, snapshot = Some d\<rparr> =
               (Inl (Error ''SQLITE_ERROR: cannot start a transaction within a transaction''),
                \<lparr>db = d, snapshot = Some d\<rparr>)"
    by (simp add: withdrawCredits_def updateUserBalance_in_transaction)
  show ?thesis
    unfolding c
    by (simp add: consumeService_def consumeService_try_def checkBalance_number inner
          createServiceUsage_def insert_service_usage_def Let_def
          io_bind_def io_catch_def io_return_def io_throw_def db_run_def
          begin_transaction_def rollback_def)
qed

text \<open>The same happens to the deposit of \<^const>\<open>updatePaymentStatus\<close>.\<close>

lemma updatePaymentStatus_in_transaction:
  "snapshot c = Some s \<Longrightarrow>
   updatePaymentStatus paymentId status transactionId now depositNow depositId c =
     (Inl (Error ''SQLITE_ERROR: cannot start a transaction within a transaction''), c)"
  by (simp add: updatePaymentStatus_def io_defs)

lemma updatePaymentStatus_idle:
  assumes "snapshot c = None"
  shows "updatePaymentStatus paymentId status transactionId now depositNow depositId c =
     (case select_payment paymentId (db c) of
        None \<Rightarrow> (Inr False, c)
      | Some p \<Rightarrow>
          if pay_status p \<noteq> Pending then (Inr False, c)
          else if status = Completed then (Inr False, c)
          else (Inr True, c\<lparr>db := (db c)\<lparr>payments :=
                  map (\<lambda>p. if pay_id p = paymentId
                            then p\<lparr>pay_status := status, pay_transactionId := transactionId,
                                   pay_updatedAt := now\<rparr> else p)
                      (payments (db c))\<rparr>\<rparr>))"
proof -
  obtain d where c: "c = \<lparr>db = d, snapshot = None\<rparr>"
    using assms by (cases c) simp
  have inner: "\<And>u n d'. depositCredits u n (Some paymentId) (Some (TopUp n))
                 depositNow depositId \<lparr>db = d', snapshot = Some d\<rparr> =
               (Inl (Error ''SQLITE_ERROR: cannot start a transaction within a transaction''),
                \<lparr>db = d', snapshot = Some d\<rparr>)"
    by (simp add: depositCredits_def updateUserBalance_in_transaction)
  show ?thesis
    unfolding c
    by (simp add: updatePaymentStatus_def updatePaymentStatus_try_def getPaymentById_def
          inner update_payment_def io_defs split: option.splits)
qed

lemma refundServiceConsumption_in_transaction:
  "snapshot c = Some s \<Longrightarrow>
   refundServiceConsumption serviceUsageId reason now transactionId c =
     (Inl (Error ''SQLITE_ERROR: cannot start a transaction within a transaction''), c)"
  by (simp add: refundServiceConsumption_def io_defs)

lemma refundServiceConsumption_idle:
  assumes "snapshot c = None"
  shows "refundServiceConsumption serviceUsageId reason now transactionId c =
     (case select_service_usage serviceUsageId (db c) of
        None \<Rightarrow> (Inr False, c)
      | Some u \<Rightarrow>
          if su_status u \<noteq> UsageSuccess then (Inr False, c)
          else if now - su_createdAt u > 86400000 then (Inr False, c)
          else if transactionId \<in> tx_id ` set (credit_transactions (db c)) then (Inr False, c)
          else (Inr True, c\<lparr>db := (db c)\<lparr>
                 user_accounts :=
                   map (\<lambda>a. if acc_userId a = su_userId u
                             then a\<lparr>acc_balance := acc_balance a + su_creditsUsed u,
                                    acc_lastUpdated := now\<rparr> else a)
                       (user_accounts (db c)),
                 credit_transactions := credit_transactions (db c) @
                   [\<lparr>tx_id = transactionId, tx_userId = su_userId u, tx_type = Reward,
                     tx_amount = su_creditsUsed u, tx_previousBalance = 0,
                     tx_currentBalance = su_creditsUsed u,
                     tx_relatedOrder = Some serviceUsageId,
                     tx_description = Some (ServiceRefund (su_serviceKey u) reason),
                     tx_createdAt = now\<rparr>],
                 service_usages :=
                   map (\<lambda>u. if su_id u = serviceUsageId then u\<lparr>su_status := UsageRefunded\<rparr>
                             else u)
                       (service_usages (db c))\<rparr>\<rparr>))"
proof -
  obtain d where c: "c = \<lparr>db = d, snapshot = None\<rparr>"
    using assms by (cases c) simp
  have hours: "\<And>t::int. (real_of_int t / (1000 * 60 * 60) > 24) = (t > 86400000)"
    by (simp add: field_simps)
  show ?thesis
    unfolding c
    by (simp add: refundServiceConsumption_def refundServiceConsumption_try_def hours
          credit_user_account_def update_service_usage_def insert_credit_transaction_def
          Let_def io_defs split: option.splits)
qed

lemma served_connection_eq:
  "served_connection =
     \<lparr>db = \<lparr>users = [\<lparr>user_id = ''user-1'', user_username = ''alice'',
                       user_email = ''alice@example.org'', user_phone = None,
                       user_passwordHash = ''5a17secret'', user_salt = ''5a17'',
                       user_isVerified = True, user_verificationToken = None,
                       user_createdAt = 1000, user_updatedAt = 1000\<rparr>],
            user_accounts = [\<lparr>acc_userId = ''user-1'', acc_balance = 10,
                               acc_lastUpdated = 2000\<rparr>],
            credit_transactions =
              [\<lparr>tx_id = ''tx-1'', tx_userId = ''user-1'', tx_type = Withdrawal,
                tx_amount = - 5, tx_previousBalance = 15, tx_currentBalance = 10,
                tx_relatedOrder = None,
                tx_description = Some (ServiceUse ''ai-image-edit''), tx_createdAt = 2000\<rparr>],
            payments = [],
            service_usages =
              [\<lparr>su_id = ''use-1'', su_userId = ''user-1'', su_serviceKey = ''ai-image-edit'',
                su_creditsUsed = 5, su_status = UsageSuccess, su_details = None,
                su_createdAt = 2001\<rparr>]\<rparr>,
      snapshot = None\<rparr>"
  by (simp add: served_connection_def withdrawCredits_def updateUserBalance_idle
        alice_connection_eq select_user_account_def createServiceUsage_def
        insert_service_usage_def Let_def io_defs)

text \<open>What each operation does to the audit log.\<close>

lemma createUser_transactions:
  "credit_transactions (db (snd (createUser hashPassword username email password phone newId
     salt now c))) = credit_transactions (db c)"
  by (auto simp add: createUser_result Let_def dest: insert_user_tables split: sum.splits)

lemma createPayment_transactions:
  "credit_transactions (db (snd (createPayment userId amount method creditsRate newId now c)))
     = credit_transactions (db c)"
  by (simp add: createPayment_result Let_def)

lemma updateUserBalance_rows:
  assumes "t \<in> set (credit_transactions (db (snd
             (updateUserBalance userId amount type description relatedOrder now transactionId c))))"
  shows "t \<in> set (credit_transactions (db c)) \<or> balanced_row t"
proof (cases "snapshot c")
  case None
  with assms show ?thesis
    by (auto simp add: updateUserBalance_idle balanced_row_def split: option.splits if_splits)
next
  case (Some s)
  with assms show ?thesis by (simp add: updateUserBalance_in_transaction)
qed

lemma updatePaymentStatus_transactions:
  "credit_transactions (db (snd
     (updatePaymentStatus paymentId status transactionId now depositNow depositId c)))
     = credit_transactions (db c)"
proof (cases "snapshot c")
  case None
  then show ?thesis
    by (simp add: updatePaymentStatus_idle split: option.splits)
next
  case (Some s)
  then show ?thesis by (simp add: updatePaymentStatus_in_transaction)
qed

lemma consumeService_transactions:
  "credit_transactions (db (snd
     (consumeService userId serviceKey credits details withdrawNow withdrawId usageId usageNow c)))
     = credit_transactions (db c)"
proof (cases "snapshot c")
  case None
  then show ?thesis
    by (simp add: consumeService_idle Let_def)
next
  case (Some s)
  then show ?thesis by (simp add: consumeService_in_transaction)
qed

lemma refundServiceConsumption_rows:
  assumes "t \<in> set (credit_transactions (db (snd
             (refundServiceConsumption serviceUsageId reason now transactionId c))))"
  shows "t \<in> set (credit_transactions (db c)) \<or> balanced_row t"
proof (cases "snapshot c")
  case None
  with assms show ?thesis
    by (auto simp add: refundServiceConsumption_idle balanced_row_def
          split: option.splits if_splits)
next
  case (Some s)
  with assms show ?thesis by (simp add: refundServiceConsumption_in_transaction)
qed

lemma invoiced_connection_eq:
  "invoiced_connection =
     \<lparr>db = \<lparr>users = [\<lparr>user_id = ''user-1'', user_username = ''alice'',
                       user_email = ''alice@example.org'', user_phone = None,
                       user_passwordHash = ''5a17secret'', user_salt = ''5a17'',
                       user_isVerified = True, user_verificationToken = None,
                       user_createdAt = 1000, user_updatedAt = 1000\<rparr>],
            user_accounts = [\<lparr>acc_userId = ''user-1'', acc_balance = 15,
                               acc_lastUpdated = 1000\<rparr>],
            credit_transactions = [],
            payments = [\<lparr>pay_id = ''pay-1'', pay_userId = ''user-1'', pay_amount = 10,
                          pay_credits = 100, pay_status = Pending, pay_method = Wechat,
                          pay_transactionId = None, pay_createdAt = 3000,
                          pay_updatedAt = 3000\<rparr>],
            service_usages = []\<rparr>,
      snapshot = None\<rparr>"
  by (simp add: invoiced_connection_def createPayment_result alice_connection_eq Let_def)

lemma overdrawn_connection_eq:
  "overdrawn_connection =
     \<lparr>db = \<lparr>users = [\<lparr>user_id = ''user-1'', user_username = ''alice'',
                       user_email = ''alice@example.org'', user_phone = None,
                       user_passwordHash = ''5a17secret'', user_salt = ''5a17'',
                       user_isVerified = True, user_verificationToken = None,
                       user_createdAt = 1000, user_updatedAt = 1000\<rparr>],
            user_accounts = [\<lparr>acc_userId = ''user-1'', acc_balance = - 1,
                               acc_lastUpdated = 2000\<rparr>],
            credit_transactions =
              [\<lparr>tx_id = ''tx-1'', tx_userId = ''user-1'', tx_type = Expiry,
                tx_amount = - 16, tx_previousBalance = 15, tx_currentBalance = - 1,
                tx_relatedOrder = None, tx_description = None, tx_createdAt = 2000\<rparr>],
            payments = [], service_usages = []\<rparr>,
      snapshot = None\<rparr>"
  by (simp add: overdrawn_connection_def updateUserBalance_idle alice_connection_eq
        select_user_account_def)

text \<open>No call of \<^const>\<open>consumeService\<close> reports success, and none of \<^const>\<open>handlePaymentCallback\<close>
  for a successful payment does.\<close>

lemma consumeService_never_succeeds:
  "fst (consumeService userId serviceKey credits details withdrawNow withdrawId usageId usageNow c)
     = Inr r \<Longrightarrow> \<not> success r"
proof (cases "snapshot c")
  case None
  assume "fst (consumeService userId serviceKey credits details withdrawNow withdrawId usageId
                 usageNow c) = Inr r"
  with None show ?thesis
    by (auto simp add: consumeService_idle Let_def split: if_splits)
next
  case (Some s)
  assume "fst (consumeService userId serviceKey credits details withdrawNow withdrawId usageId
                 usageNow c) = Inr r"
  with Some show ?thesis by (simp add: consumeService_in_transaction)
qed

lemma consumeService_accounts:
  "user_accounts (db (snd
     (consumeService userId serviceKey credits details withdrawNow withdrawId usageId usageNow c)))
     = user_accounts (db c)"
proof (cases "snapshot c")
  case None
  then show ?thesis by (simp add: consumeService_idle Let_def)
next
  case (Some s)
  then show ?thesis by (simp add: consumeService_in_transaction)
qed

lemma handlePaymentCallback_success_idle:
  "snapshot c = None \<Longrightarrow>
   handlePaymentCallback paymentId transactionId True now depositNow depositId c = (Inr False, c)"
  by (simp add: handlePaymentCallback_def updatePaymentStatus_idle split: option.splits)

lemma handlePaymentCallback_success_never:
  "fst (handlePaymentCallback paymentId transactionId True now depositNow depositId c) \<noteq> Inr True"
proof (cases "snapshot c")
  case None
  then show ?thesis by (simp add: handlePaymentCallback_success_idle)
next
  case (Some s)
  then show ?thesis
    by (simp add: handlePaymentCallback_def updatePaymentStatus_in_transaction)
qed

lemma updatePaymentStatus_not_pending:
  "snapshot c = None \<Longrightarrow> select_payment paymentId (db c) = Some p \<Longrightarrow> pay_status p \<noteq> Pending
   \<Longrightarrow> updatePaymentStatus paymentId status transactionId now depositNow depositId c
       = (Inr False, c)"
  by (simp add: updatePaymentStatus_idle)

lemma js_get_unknown:
  "key \<notin> fst ` set obj \<Longrightarrow> key \<notin> set object_prototype \<Longrightarrow> js_get obj key = JUndefined"
  by (simp add: js_get_def map_of_eq_None_iff [THEN iffD2])

section \<open>The ledger operation\<close>

text \<open>
  On a connection with no open transaction the operation follows the rule of the ledger. For
  an existing account, a withdrawal that would make the balance negative returns
  \<^verbatim>\<open>false\<close> and leaves the whole connection as it was; every other call (its generated
  id being unused) returns \<^verbatim>\<open>true\<close>, sets the balance to the previous balance plus the
  amount (the sum of the model, which is the sum of the source while it is exact) and
  appends exactly one audit row. The outcome is always one of these two, and after a
  successful withdrawal the balance of the account is not negative.
\<close>

lemma updateUserBalance_guard_and_atomicity:
  fixes c :: connection
    and userId amount type description relatedOrder now transactionId acc
  defines "result \<equiv>
     updateUserBalance userId amount type description relatedOrder now transactionId c"
  defines "written \<equiv>
     c\<lparr>db := (db c)\<lparr>
        user_accounts :=
          map (\<lambda>a. if acc_userId a = userId
                    then a\<lparr>acc_balance := acc_balance acc + amount, acc_lastUpdated := now\<rparr>
                    else a)
              (user_accounts (db c)),
        credit_transactions := credit_transactions (db c) @
          [\<lparr>tx_id = transactionId, tx_userId = userId, tx_type = type, tx_amount = amount,
            tx_previousBalance = acc_balance acc, tx_currentBalance = acc_balance acc + amount,
            tx_relatedOrder = relatedOrder, tx_description = description,
            tx_createdAt = now\<rparr>]\<rparr>\<rparr>"
  assumes idle: "snapshot c = None"
    and account: "select_user_account userId (db c) = Some acc"
  shows "(type = Withdrawal \<and> acc_balance acc + amount < 0 \<longrightarrow> result = (Inr False, c))
       \<and> (\<not> (type = Withdrawal \<and> acc_balance acc + amount < 0)
            \<and> transactionId \<notin> tx_id ` set (credit_transactions (db c))
          \<longrightarrow> result = (Inr True, written))
       \<and> (result = (Inr False, c) \<or> result = (Inr True, written))
       \<and> (fst result = Inr True \<and> type = Withdrawal \<longrightarrow>
            (\<forall>a \<in> set (user_accounts (db (snd result))).
               acc_userId a = userId \<longrightarrow> 0 \<le> acc_balance a))"
proof -
  have r: "result =
     (if type = Withdrawal \<and> acc_balance acc + amount < 0 then (Inr False, c)
      else if transactionId \<in> tx_id ` set (credit_transactions (db c)) then (Inr False, c)
      else (Inr True, written))"
    unfolding result_def written_def
    by (simp add: updateUserBalance_idle [OF idle] account)
  have guard: "type = Withdrawal \<and> acc_balance acc + amount < 0 \<longrightarrow> result = (Inr False, c)"
    by (simp add: r)
  have applied: "\<not> (type = Withdrawal \<and> acc_balance acc + amount < 0)
            \<and> transactionId \<notin> tx_id ` set (credit_transactions (db c))
          \<longrightarrow> result = (Inr True, written)"
    by (simp add: r)
  have atomic: "result = (Inr False, c) \<or> result = (Inr True, written)"
    by (simp add: r)
  have nonneg: "fst result = Inr True \<and> type = Withdrawal \<longrightarrow>
            (\<forall>a \<in> set (user_accounts (db (snd result))).
               acc_userId a = userId \<longrightarrow> 0 \<le> acc_balance a)"
  proof (intro impI ballI)
    fix a
    assume ok: "fst result = Inr True \<and> type = Withdrawal"
      and a: "a \<in> set (user_accounts (db (snd result)))" and u: "acc_userId a = userId"
    from ok have t: "type = Withdrawal" and f: "fst result = Inr True"
      by blast+
    from f have "result = (Inr True, snd result)"
      by (cases result) simp
    then have "updateUserBalance userId amount Withdrawal description relatedOrder now
                 transactionId c = (Inr True, snd result)"
      unfolding result_def t .
    from updateUserBalance_withdrawal_nonneg [OF idle this a u]
    show "0 \<le> acc_balance a" .
  qed
  from guard applied atomic nonneg show ?thesis by blast
qed

lemma updateUserBalance_guard_and_atomicity_example:
  "snapshot alice_connection = None
   \<and> select_user_account ''user-1'' (db alice_connection)
       = Some \<lparr>acc_userId = ''user-1'', acc_balance = 15, acc_lastUpdated = 1000\<rparr>
   \<and> updateUserBalance ''user-1'' (- 16) Withdrawal None None 2000 ''tx-1'' alice_connection
       = (Inr False, alice_connection)
   \<and> fst (updateUserBalance ''user-1'' (- 5) Withdrawal None None 2000 ''tx-1''
            alice_connection) = Inr True
   \<and> map acc_balance (user_accounts (db (snd
        (updateUserBalance ''user-1'' (- 5) Withdrawal None None 2000 ''tx-1''
           alice_connection)))) = [10]
   \<and> map tx_amount (credit_transactions (db (snd
        (updateUserBalance ''user-1'' (- 5) Withdrawal None None 2000 ''tx-1''
           alice_connection)))) = [- 5]"
  using updateUserBalance_guard_and_atomicity
      [where c = alice_connection and userId = "''user-1''"
         and acc = "\<lparr>acc_userId = ''user-1'', acc_balance = 15, acc_lastUpdated = 1000\<rparr>"
         and type = Withdrawal and amount = "- 16" and description = None
         and relatedOrder = None and now = 2000 and transactionId = "''tx-1''"]
    updateUserBalance_guard_and_atomicity
      [where c = alice_connection and userId = "''user-1''"
         and acc = "\<lparr>acc_userId = ''user-1'', acc_balance = 15, acc_lastUpdated = 1000\<rparr>"
         and type = Withdrawal and amount = "- 5" and description = None
         and relatedOrder = None and now = 2000 and transactionId = "''tx-1''"]
  by (simp add: alice_connection_eq select_user_account_def)

text \<open>
  Claim C1, evaluated on the call that \<^const>\<open>consumeService\<close> makes for the registered
  user: \<^verbatim>\<open>updateUserBalance(userId, -5, 'withdrawal', ...)\<close> on the existing account with
  15 credits, on the connection whose transaction \<^const>\<open>consumeService\<close> has opened. The
  call neither returns \<^verbatim>\<open>false\<close> nor sets the balance to 10 and appends a row: its
  \<^verbatim>\<open>BEGIN TRANSACTION\<close> is refused, the call is rejected and nothing is written.
\<close>

theorem updateUserBalance_nested_call_rejected:
  "consuming_connection = alice_connection\<lparr>snapshot := Some (db alice_connection)\<rparr>
   \<and> select_user_account ''user-1'' (db consuming_connection)
       = Some \<lparr>acc_userId = ''user-1'', acc_balance = 15, acc_lastUpdated = 1000\<rparr>
   \<and> updateUserBalance ''user-1'' (- 5) Withdrawal (Some (ServiceUse ''ai-image-edit'')) None
         2000 ''tx-1'' consuming_connection
       = (Inl (Error ''SQLITE_ERROR: cannot start a transaction within a transaction''),
          consuming_connection)
   \<and> withdrawCredits ''user-1'' 5 None (Some (ServiceUse ''ai-image-edit''))
         2000 ''tx-1'' consuming_connection
       = updateUserBalance ''user-1'' (- 5) Withdrawal (Some (ServiceUse ''ai-image-edit'')) None
           2000 ''tx-1'' consuming_connection"
  by (simp add: consuming_connection_def begin_transaction_def alice_connection_eq
        select_user_account_def withdrawCredits_def updateUserBalance_in_transaction)

text \<open>
  The guard is for withdrawals only. On a connection with no open transaction, a call of
  type deposit, reward or expiry on an existing account (generated id unused) whose amount
  takes the balance below zero returns \<^verbatim>\<open>true\<close>: the negative balance and its audit
  row are committed.
\<close>

lemma deposit_reward_expiry_not_guarded:
  fixes c :: connection
    and userId amount type description relatedOrder now transactionId acc
  defines "result \<equiv>
     updateUserBalance userId amount type description relatedOrder now transactionId c"
  assumes idle: "snapshot c = None"
    and account: "select_user_account userId (db c) = Some acc"
    and fresh: "transactionId \<notin> tx_id ` set (credit_transactions (db c))"
    and type: "type \<in> {Deposit, Reward, Expiry}"
    and negative: "acc_balance acc + amount < 0"
  shows "result =
     (Inr True,
      c\<lparr>db := (db c)\<lparr>
        user_accounts :=
          map (\<lambda>a. if acc_userId a = userId
                    then a\<lparr>acc_balance := acc_balance acc + amount, acc_lastUpdated := now\<rparr>
                    else a)
              (user_accounts (db c)),
        credit_transactions := credit_transactions (db c) @
          [\<lparr>tx_id = transactionId, tx_userId = userId, tx_type = type, tx_amount = amount,
            tx_previousBalance = acc_balance acc, tx_currentBalance = acc_balance acc + amount,
            tx_relatedOrder = relatedOrder, tx_description = description,
            tx_createdAt = now\<rparr>]\<rparr>\<rparr>)
     \<and> map_option acc_balance (select_user_account userId (db (snd result)))
         = Some (acc_balance acc + amount)
     \<and> snapshot (snd result) = None"
proof -
  have r: "result =
     (Inr True,
      c\<lparr>db := (db c)\<lparr>
        user_accounts :=
          map (\<lambda>a. if acc_userId a = userId
                    then a\<lparr>acc_balance := acc_balance acc + amount, acc_lastUpdated := now\<rparr>
                    else a)
              (user_accounts (db c)),
        credit_transactions := credit_transactions (db c) @
          [\<lparr>tx_id = transactionId, tx_userId = userId, tx_type = type, tx_amount = amount,
            tx_previousBalance = acc_balance acc, tx_currentBalance = acc_balance acc + amount,
            tx_relatedOrder = relatedOrder, tx_description = description,
            tx_createdAt = now\<rparr>]\<rparr>\<rparr>)"
    unfolding result_def
    using type fresh by (auto simp add: updateUserBalance_idle [OF idle] account)
  have "select_user_account userId (db (snd result)) =
          Some (acc\<lparr>acc_balance := acc_balance acc + amount, acc_lastUpdated := now\<rparr>)"
    using account
    by (simp add: r select_user_account_def select_user_account_map)
  with r idle show ?thesis by simp
qed

lemma deposit_reward_expiry_not_guarded_example:
  "snapshot alice_connection = None
   \<and> select_user_account ''user-1'' (db alice_connection)
       = Some \<lparr>acc_userId = ''user-1'', acc_balance = 15, acc_lastUpdated = 1000\<rparr>
   \<and> fst (updateUserBalance ''user-1'' (- 16) Expiry None None 2000 ''tx-1'' alice_connection)
       = Inr True
   \<and> map acc_balance (user_accounts (db (snd
        (updateUserBalance ''user-1'' (- 16) Expiry None None 2000 ''tx-1'' alice_connection))))
       = [- 1]
   \<and> map tx_currentBalance (credit_transactions (db (snd
        (updateUserBalance ''user-1'' (- 16) Expiry None None 2000 ''tx-1'' alice_connection))))
       = [- 1]"
  using deposit_reward_expiry_not_guarded
    [where c = alice_connection and userId = "''user-1''"
       and acc = "\<lparr>acc_userId = ''user-1'', acc_balance = 15, acc_lastUpdated = 1000\<rparr>"
       and type = Expiry and amount = "- 16" and description = None
       and relatedOrder = None and now = 2000 and transactionId = "''tx-1''"]
  by (simp add: alice_connection_eq select_user_account_def)

text \<open>
  Claim C9, evaluated on the call that \<^const>\<open>updatePaymentStatus\<close> makes for the pending
  payment: \<^verbatim>\<open>updateUserBalance(userId, 100, 'deposit', ...)\<close> on the existing account, on
  the connection whose transaction \<^const>\<open>updatePaymentStatus\<close> has opened. The call does
  not succeed: its \<^verbatim>\<open>BEGIN TRANSACTION\<close> is refused and nothing is written. On that
  connection an expiry that would take the balance to -1 is rejected in the same way, no
  negative balance and no audit row being committed.
\<close>

theorem deposit_nested_call_rejected:
  "snapshot completing_connection = Some (db invoiced_connection)
   \<and> select_user_account ''user-1'' (db completing_connection)
       = Some \<lparr>acc_userId = ''user-1'', acc_balance = 15, acc_lastUpdated = 1000\<rparr>
   \<and> updateUserBalance ''user-1'' 100 Deposit (Some (TopUp 100)) (Some ''pay-1'')
         4001 ''tx-1'' completing_connection
       = (Inl (Error ''SQLITE_ERROR: cannot start a transaction within a transaction''),
          completing_connection)
   \<and> depositCredits ''user-1'' 100 (Some ''pay-1'') (Some (TopUp 100))
         4001 ''tx-1'' completing_connection
       = updateUserBalance ''user-1'' 100 Deposit (Some (TopUp 100)) (Some ''pay-1'')
           4001 ''tx-1'' completing_connection
   \<and> updateUserBalance ''user-1'' (- 16) Expiry None None 4001 ''tx-1'' completing_connection
       = (Inl (Error ''SQLITE_ERROR: cannot start a transaction within a transaction''),
          completing_connection)"
proof -
  have open_tx: "snapshot completing_connection = Some (db invoiced_connection)"
    by (simp add: completing_connection_def begin_transaction_def db_run_def
          update_payment_def invoiced_connection_eq)
  have account: "select_user_account ''user-1'' (db completing_connection)
       = Some \<lparr>acc_userId = ''user-1'', acc_balance = 15, acc_lastUpdated = 1000\<rparr>"
    by (simp add: completing_connection_def begin_transaction_def db_run_def
          update_payment_def invoiced_connection_eq select_user_account_def)
  show ?thesis
    by (simp add: open_tx account depositCredits_def
          updateUserBalance_in_transaction [OF open_tx])
qed

section \<open>The audit rows\<close>

text \<open>
  Claim C3. Every row that a call of any operation adds to \<^verbatim>\<open>credit_transactions\<close>
  (the calls of \<^const>\<open>updateUserBalance\<close> and the refund path) has
  previousBalance + amount = currentBalance: a row found in the table after the call was
  there before it or satisfies the equation.
\<close>

theorem written_rows_balanced:
  assumes "step c c'" and "t \<in> set (credit_transactions (db c'))"
  shows "t \<in> set (credit_transactions (db c)) \<or> balanced_row t"
  using assms
proof (induction rule: step.induct)
  case step_createUser
  then show ?case by (simp add: createUser_transactions)
next
  case step_updateUserBalance
  then show ?case by (rule updateUserBalance_rows)
next
  case step_createPayment
  then show ?case by (simp add: createPayment_transactions)
next
  case step_updatePaymentStatus
  then show ?case by (simp add: updatePaymentStatus_transactions)
next
  case step_consumeService
  then show ?case by (simp add: consumeService_transactions)
next
  case step_refundServiceConsumption
  then show ?case by (rule refundServiceConsumption_rows)
qed

theorem written_rows_balanced_witness:
  "step served_connection
     (snd (refundServiceConsumption ''use-1'' None 3000 ''tx-2'' served_connection))
   \<and> \<lparr>tx_id = ''tx-2'', tx_userId = ''user-1'', tx_type = Reward, tx_amount = 5,
       tx_previousBalance = 0, tx_currentBalance = 5, tx_relatedOrder = Some ''use-1'',
       tx_description = Some (ServiceRefund ''ai-image-edit'' None), tx_createdAt = 3000\<rparr>
     \<in> set (credit_transactions (db (snd
           (refundServiceConsumption ''use-1'' None 3000 ''tx-2'' served_connection))))
   \<and> balanced_row
       \<lparr>tx_id = ''tx-2'', tx_userId = ''user-1'', tx_type = Reward, tx_amount = 5,
        tx_previousBalance = 0, tx_currentBalance = 5, tx_relatedOrder = Some ''use-1'',
        tx_description = Some (ServiceRefund ''ai-image-edit'' None), tx_createdAt = 3000\<rparr>"
proof -
  have s: "step served_connection
     (snd (refundServiceConsumption ''use-1'' None 3000 ''tx-2'' served_connection))"
    by (rule step_refundServiceConsumption)
  have m: "\<lparr>tx_id = ''tx-2'', tx_userId = ''user-1'', tx_type = Reward, tx_amount = 5,
       tx_previousBalance = 0, tx_currentBalance = 5, tx_relatedOrder = Some ''use-1'',
       tx_description = Some (ServiceRefund ''ai-image-edit'' None), tx_createdAt = 3000\<rparr>
     \<in> set (credit_transactions (db (snd
           (refundServiceConsumption ''use-1'' None 3000 ''tx-2'' served_connection))))"
    by (simp add: refundServiceConsumption_idle served_connection_eq select_service_usage_def)
  from written_rows_balanced [OF s m] have "balanced_row
       \<lparr>tx_id = ''tx-2'', tx_userId = ''user-1'', tx_type = Reward, tx_amount = 5,
        tx_previousBalance = 0, tx_currentBalance = 5, tx_relatedOrder = Some ''use-1'',
        tx_description = Some (ServiceRefund ''ai-image-edit'' None), tx_createdAt = 3000\<rparr>"
    by (simp add: served_connection_eq)
  with s m show ?thesis by blast
qed

section \<open>Consumption and refund\<close>

text \<open>
  Claim C5. A call of \<^const>\<open>refundServiceConsumption\<close> (no transaction open, generated id
  unused) returns \<^verbatim>\<open>true\<close> exactly when the usage exists, has status success and the
  call is made at most 24 hours after its creation. Then the credits used are added to the
  balance of the usage's user, the usage is marked refunded and one compensating row is
  appended. In every other case it returns \<^verbatim>\<open>false\<close> and the connection is as before.
\<close>

theorem refundServiceConsumption_window:
  fixes c :: connection and serviceUsageId reason now transactionId
  defines "result \<equiv> refundServiceConsumption serviceUsageId reason now transactionId c"
  defines "refundable \<equiv>
     (case select_service_usage serviceUsageId (db c) of
        None \<Rightarrow> False
      | Some u \<Rightarrow> su_status u = UsageSuccess \<and> now - su_createdAt u \<le> 24 * 60 * 60 * 1000)"
  assumes idle: "snapshot c = None"
    and fresh: "transactionId \<notin> tx_id ` set (credit_transactions (db c))"
  shows "(fst result = Inr True \<longleftrightarrow> refundable)
       \<and> (\<not> refundable \<longrightarrow> result = (Inr False, c))
       \<and> (\<forall>u. select_service_usage serviceUsageId (db c) = Some u \<and> refundable \<longrightarrow>
            result =
              (Inr True,
               c\<lparr>db := (db c)\<lparr>
                 user_accounts :=
                   map (\<lambda>a. if acc_userId a = su_userId u
                             then a\<lparr>acc_balance := acc_balance a + su_creditsUsed u,
                                    acc_lastUpdated := now\<rparr> else a)
                       (user_accounts (db c)),
                 credit_transactions := credit_transactions (db c) @
                   [\<lparr>tx_id = transactionId, tx_userId = su_userId u, tx_type = Reward,
                     tx_amount = su_creditsUsed u, tx_previousBalance = 0,
                     tx_currentBalance = su_creditsUsed u,
                     tx_relatedOrder = Some serviceUsageId,
                     tx_description = Some (ServiceRefund (su_serviceKey u) reason),
                     tx_createdAt = now\<rparr>],
                 service_usages :=
                   map (\<lambda>u. if su_id u = serviceUsageId then u\<lparr>su_status := UsageRefunded\<rparr>
                             else u)
                       (service_usages (db c))\<rparr>\<rparr>))"
proof -
  have iff: "fst result = Inr True \<longleftrightarrow> refundable"
    unfolding result_def refundable_def using fresh
    by (simp add: refundServiceConsumption_idle [OF idle] split: option.splits)
  have no: "\<not> refundable \<longrightarrow> result = (Inr False, c)"
    unfolding result_def refundable_def
    by (simp add: refundServiceConsumption_idle [OF idle] split: option.splits)
  have yes: "\<forall>u. select_service_usage serviceUsageId (db c) = Some u \<and> refundable \<longrightarrow>
            result =
              (Inr True,
               c\<lparr>db := (db c)\<lparr>
                 user_accounts :=
                   map (\<lambda>a. if acc_userId a = su_userId u
                             then a\<lparr>acc_balance := acc_balance a + su_creditsUsed u,
                                    acc_lastUpdated := now\<rparr> else a)
                       (user_accounts (db c)),
                 credit_transactions := credit_transactions (db c) @
                   [\<lparr>tx_id = transactionId, tx_userId = su_userId u, tx_type = Reward,
                     tx_amount = su_creditsUsed u, tx_previousBalance = 0,
                     tx_currentBalance = su_creditsUsed u,
                     tx_relatedOrder = Some serviceUsageId,
                     tx_description = Some (ServiceRefund (su_serviceKey u) reason),
                     tx_createdAt = now\<rparr>],
                 service_usages :=
                   map (\<lambda>u. if su_id u = serviceUsageId then u\<lparr>su_status := UsageRefunded\<rparr>
                             else u)
                       (service_usages (db c))\<rparr>\<rparr>)"
    unfolding result_def refundable_def using fresh
    by (simp add: refundServiceConsumption_idle [OF idle] split: option.splits)
  from iff no yes show ?thesis by blast
qed

theorem refundServiceConsumption_window_witness:
  "snapshot served_connection = None
   \<and> ''tx-2'' \<notin> tx_id ` set (credit_transactions (db served_connection))
   \<and> fst (refundServiceConsumption ''use-1'' None (2001 + 86400000) ''tx-2'' served_connection)
       = Inr True
   \<and> map acc_balance (user_accounts (db (snd
        (refundServiceConsumption ''use-1'' None (2001 + 86400000) ''tx-2'' served_connection))))
       = [15]
   \<and> map su_status (service_usages (db (snd
        (refundServiceConsumption ''use-1'' None (2001 + 86400000) ''tx-2'' served_connection))))
       = [UsageRefunded]
   \<and> map tx_amount (credit_transactions (db (snd
        (refundServiceConsumption ''use-1'' None (2001 + 86400000) ''tx-2'' served_connection))))
       = [- 5, 5]
   \<and> refundServiceConsumption ''use-1'' None (2002 + 86400000) ''tx-2'' served_connection
       = (Inr False, served_connection)
   \<and> refundServiceConsumption ''use-9'' None 3000 ''tx-2'' served_connection
       = (Inr False, served_connection)"
  using refundServiceConsumption_window
      [where c = served_connection and serviceUsageId = "''use-1''" and reason = None
         and now = "2001 + 86400000" and transactionId = "''tx-2''"]
    refundServiceConsumption_window
      [where c = served_connection and serviceUsageId = "''use-1''" and reason = None
         and now = "2002 + 86400000" and transactionId = "''tx-2''"]
    refundServiceConsumption_window
      [where c = served_connection and serviceUsageId = "''use-9''" and reason = None
         and now = 3000 and transactionId = "''tx-2''"]
  by (simp add: served_connection_eq select_service_usage_def)

text \<open>
  Claim C6. \<^const>\<open>consumeService\<close> for more credits than the balance of the account (no
  transaction open, generated usage id unused) returns failure with the message
  \<^verbatim>\<open>Insufficient balance\<close>; accounts and audit log are unchanged and exactly one usage
  row is added, with status failed and the reason in its details.
\<close>

theorem consumeService_insufficient_balance:
  assumes idle: "snapshot c = None"
    and account: "select_user_account userId (db c) = Some acc"
    and short: "acc_balance acc < credits"
    and fresh: "usageId \<notin> su_id ` set (service_usages (db c))"
  shows "consumeService userId serviceKey credits details withdrawNow withdrawId usageId usageNow c =
     (Inr \<lparr>success = False, message = Some ''Insufficient balance'', serviceUsage = None\<rparr>,
      c\<lparr>db := (db c)\<lparr>service_usages := service_usages (db c) @
         [\<lparr>su_id = usageId, su_userId = userId, su_serviceKey = serviceKey,
           su_creditsUsed = credits, su_status = UsageFailed,
           su_details = Some ((case details of None \<Rightarrow> [] | Some d \<Rightarrow> d)
                              @ '' - Error: Insufficient balance''),
           su_createdAt = usageNow\<rparr>]\<rparr>\<rparr>)"
  using short fresh
  by (simp add: consumeService_idle [OF idle] sufficient_def account Let_def)

theorem consumeService_insufficient_balance_witness:
  "snapshot alice_connection = None
   \<and> select_user_account ''user-1'' (db alice_connection)
       = Some \<lparr>acc_userId = ''user-1'', acc_balance = 15, acc_lastUpdated = 1000\<rparr>
   \<and> fst (consumeService ''user-1'' ''batch-processing'' 20 (Some ''40 images'') 2000 ''tx-1''
            ''use-1'' 2001 alice_connection)
       = Inr \<lparr>success = False, message = Some ''Insufficient balance'', serviceUsage = None\<rparr>
   \<and> map acc_balance (user_accounts (db (snd
        (consumeService ''user-1'' ''batch-processing'' 20 (Some ''40 images'') 2000 ''tx-1''
           ''use-1'' 2001 alice_connection)))) = [15]
   \<and> credit_transactions (db (snd
        (consumeService ''user-1'' ''batch-processing'' 20 (Some ''40 images'') 2000 ''tx-1''
           ''use-1'' 2001 alice_connection))) = []
   \<and> map su_status (service_usages (db (snd
        (consumeService ''user-1'' ''batch-processing'' 20 (Some ''40 images'') 2000 ''tx-1''
           ''use-1'' 2001 alice_connection)))) = [UsageFailed]
   \<and> map su_details (service_usages (db (snd
        (consumeService ''user-1'' ''batch-processing'' 20 (Some ''40 images'') 2000 ''tx-1''
           ''use-1'' 2001 alice_connection))))
       = [Some ''40 images - Error: Insufficient balance'']"
  using consumeService_insufficient_balance
      [where c = alice_connection and userId = "''user-1''"
         and acc = "\<lparr>acc_userId = ''user-1'', acc_balance = 15, acc_lastUpdated = 1000\<rparr>"
         and credits = 20 and usageId = "''use-1''" and serviceKey = "''batch-processing''"
         and details = "Some ''40 images''" and withdrawNow = 2000 and withdrawId = "''tx-1''"
         and usageNow = 2001]
  by (simp add: alice_connection_eq select_user_account_def)

text \<open>
  Claim C7, evaluated on the freshly registered user with 15 credits:
  \<^verbatim>\<open>consumeService(userId, 'ai-image-edit', 5)\<close> does not return success. The balance
  check passes, the \<^verbatim>\<open>BEGIN\<close> of the withdrawal is rejected inside the transaction that
  \<^const>\<open>consumeService\<close> opened, the balance stays 15, no audit row is written and the one
  usage row has status failed.
\<close>

theorem consumeService_new_user_rejected:
  "fst (consumeService ''user-1'' ''ai-image-edit'' 5 None 2000 ''tx-1'' ''use-1'' 2001
          alice_connection)
     = Inr \<lparr>success = False,
            message = Some ''SQLITE_ERROR: cannot start a transaction within a transaction'',
            serviceUsage = None\<rparr>
   \<and> map acc_balance (user_accounts (db (snd
        (consumeService ''user-1'' ''ai-image-edit'' 5 None 2000 ''tx-1'' ''use-1'' 2001
           alice_connection)))) = [15]
   \<and> credit_transactions (db (snd
        (consumeService ''user-1'' ''ai-image-edit'' 5 None 2000 ''tx-1'' ''use-1'' 2001
           alice_connection))) = []
   \<and> map su_status (service_usages (db (snd
        (consumeService ''user-1'' ''ai-image-edit'' 5 None 2000 ''tx-1'' ''use-1'' 2001
           alice_connection)))) = [UsageFailed]"
  by (simp add: consumeService_idle alice_connection_eq sufficient_def select_user_account_def
        Let_def)

section \<open>Payments\<close>

text \<open>
  Claim C8, evaluated: \<^verbatim>\<open>createPayment(userId, 10, 'wechat')\<close> returns a pending payment
  with 100 credits. The completion with \<^verbatim>\<open>success = true\<close> returns \<^verbatim>\<open>false\<close> and
  leaves the connection as it was: the payment pending, the balance 15, no deposit row.
\<close>

theorem completePayment_deposit_rejected:
  "fst (createPayment ''user-1'' 10 Wechat None ''pay-1'' 3000 alice_connection)
     = Inr \<lparr>pay_id = ''pay-1'', pay_userId = ''user-1'', pay_amount = 10, pay_credits = 100,
            pay_status = Pending, pay_method = Wechat, pay_transactionId = None,
            pay_createdAt = 3000, pay_updatedAt = 3000\<rparr>
   \<and> handlePaymentCallback ''pay-1'' ''txn1'' True 4000 4001 ''tx-1'' invoiced_connection
     = (Inr False, invoiced_connection)
   \<and> map pay_status (payments (db invoiced_connection)) = [Pending]
   \<and> map acc_balance (user_accounts (db invoiced_connection)) = [15]
   \<and> credit_transactions (db invoiced_connection) = []"
  by (simp add: handlePaymentCallback_success_idle invoiced_connection_eq
        createPayment_result alice_connection_eq Let_def)

text \<open>
  Claim C4, evaluated on the same payment: after the first completion with
  \<^verbatim>\<open>success = true\<close> has returned \<^verbatim>\<open>false\<close> the payment is still pending; the
  replay returns \<^verbatim>\<open>false\<close> as well and no deposit has been made.
\<close>

theorem completePayment_replay_still_pending:
  "fst (handlePaymentCallback ''pay-1'' ''txn1'' True 4000 4001 ''tx-1'' invoiced_connection)
     = Inr False
   \<and> map pay_status (payments (db (snd
        (handlePaymentCallback ''pay-1'' ''txn1'' True 4000 4001 ''tx-1'' invoiced_connection))))
     = [Pending]
   \<and> fst (handlePaymentCallback ''pay-1'' ''txn1'' True 5000 5001 ''tx-2'' (snd
        (handlePaymentCallback ''pay-1'' ''txn1'' True 4000 4001 ''tx-1'' invoiced_connection)))
     = Inr False
   \<and> credit_transactions (db (snd
        (handlePaymentCallback ''pay-1'' ''txn1'' True 5000 5001 ''tx-2'' (snd
           (handlePaymentCallback ''pay-1'' ''txn1'' True 4000 4001 ''tx-1''
              invoiced_connection))))) = []"
  by (simp add: handlePaymentCallback_success_idle invoiced_connection_eq)

section \<open>Prices of unknown services\<close>

text \<open>
  Claim C10 as stated fails in two places. For an existing account with a negative balance
  the check against the price 0 of an unlisted service does not pass; and
  \<^verbatim>\<open>constructor\<close>, which is no key of \<^verbatim>\<open>servicePricing\<close>, does not get the price 0.
\<close>

theorem unknown_service_counterexample:
  "''face-swap'' \<notin> fst ` set servicePricing
   \<and> ''face-swap'' \<notin> fst ` set SERVICE_PRICES
   \<and> map acc_balance (user_accounts (db overdrawn_connection)) = [- 1]
   \<and> fst (checkUserBalance ''user-1'' ''face-swap'' overdrawn_connection)
       = Inr \<lparr>hasSufficientBalance = False, requiredCredits = JNumber 0\<rparr>
   \<and> ''constructor'' \<notin> fst ` set servicePricing
   \<and> getServicePrice ''constructor'' = JObject ''constructor''"
  by (simp add: servicePricing_def SERVICE_PRICES_def overdrawn_connection_eq
        checkUserBalance_def checkBalance_def getUserAccount_def select_user_account_def
        getServicePrice_def js_get_def js_or_def object_prototype_def Let_def io_defs)

text \<open>
  Claim C10, amended. For a service name that is not inherited from
  \<^verbatim>\<open>Object.prototype\<close>: \<^const>\<open>getServicePrice\<close> is 0 when the name is no key of
  \<^verbatim>\<open>servicePricing\<close>, and for an existing account whose balance is not negative each
  route helper answers with price 0 and a passed check when the name is no key of its table.
\<close>

theorem unknown_service_price_zero:
  assumes own: "serviceKey \<notin> set object_prototype"
    and account: "select_user_account userId (db c) = Some acc"
    and nonneg: "0 \<le> acc_balance acc"
  shows "(serviceKey \<notin> fst ` set servicePricing \<longrightarrow> getServicePrice serviceKey = JNumber 0)
       \<and> (serviceKey \<notin> fst ` set SERVICE_PRICES \<longrightarrow>
            checkUserBalance userId serviceKey c =
              (Inr \<lparr>hasSufficientBalance = True, requiredCredits = JNumber 0\<rparr>, c))
       \<and> (serviceKey \<notin> fst ` set SERVICE_PRICES_video \<longrightarrow>
            checkUserBalance_video userId serviceKey c =
              (Inr \<lparr>hasSufficientBalance = True, requiredCredits = JNumber 0\<rparr>, c))"
proof -
  have price: "serviceKey \<notin> fst ` set servicePricing \<longrightarrow> getServicePrice serviceKey = JNumber 0"
    using own by (simp add: getServicePrice_def js_get_unknown js_or_def)
  have route: "serviceKey \<notin> fst ` set SERVICE_PRICES \<longrightarrow>
            checkUserBalance userId serviceKey c =
              (Inr \<lparr>hasSufficientBalance = True, requiredCredits = JNumber 0\<rparr>, c)"
    using own account nonneg
    by (simp add: checkUserBalance_def js_get_unknown js_or_def checkBalance_def
          getUserAccount_def Let_def io_defs)
  have video: "serviceKey \<notin> fst ` set SERVICE_PRICES_video \<longrightarrow>
            checkUserBalance_video userId serviceKey c =
              (Inr \<lparr>hasSufficientBalance = True, requiredCredits = JNumber 0\<rparr>, c)"
    using own account nonneg
    by (simp add: checkUserBalance_video_def js_get_unknown js_or_def
          getUserAccount_def Let_def io_defs)
  from price route video show ?thesis by blast
qed

theorem unknown_service_price_zero_witness:
  "''face-swap'' \<notin> set object_prototype
   \<and> select_user_account ''user-1'' (db alice_connection)
       = Some \<lparr>acc_userId = ''user-1'', acc_balance = 15, acc_lastUpdated = 1000\<rparr>
   \<and> ''face-swap'' \<notin> fst ` set servicePricing
   \<and> getServicePrice ''face-swap'' = JNumber 0
   \<and> ''face-swap'' \<notin> fst ` set SERVICE_PRICES
   \<and> fst (checkUserBalance ''user-1'' ''face-swap'' alice_connection)
       = Inr \<lparr>hasSufficientBalance = True, requiredCredits = JNumber 0\<rparr>
   \<and> ''face-swap'' \<notin> fst ` set SERVICE_PRICES_video
   \<and> fst (checkUserBalance_video ''user-1'' ''face-swap'' alice_connection)
       = Inr \<lparr>hasSufficientBalance = True, requiredCredits = JNumber 0\<rparr>"
  using unknown_service_price_zero
      [where serviceKey = "''face-swap''" and userId = "''user-1''" and c = alice_connection
         and acc = "\<lparr>acc_userId = ''user-1'', acc_balance = 15, acc_lastUpdated = 1000\<rparr>"]
  by (simp add: object_prototype_def servicePricing_def SERVICE_PRICES_def
        SERVICE_PRICES_video_def alice_connection_eq select_user_account_def)

section \<open>Balance and audit log\<close>

text \<open>Every operation keeps the invariant of the ledger.\<close>

lemma transaction_sum_append:
  "transaction_sum u (d\<lparr>credit_transactions := credit_transactions d @ [t]\<rparr>) =
     transaction_sum u d + (if tx_userId t = u then tx_amount t else 0)"
  by (simp add: transaction_sum_def)

lemma transaction_sum_cong:
  "credit_transactions d' = credit_transactions d \<Longrightarrow> transaction_sum u d' = transaction_sum u d"
  by (simp add: transaction_sum_def)

lemma transaction_sum_absent:
  "u \<notin> tx_userId ` set (credit_transactions d) \<Longrightarrow> transaction_sum u d = 0"
proof -
  assume "u \<notin> tx_userId ` set (credit_transactions d)"
  then have "filter (\<lambda>t. tx_userId t = u) (credit_transactions d) = []"
    by (auto simp add: filter_empty_conv)
  then show ?thesis by (simp add: transaction_sum_def)
qed

lemma image_map_key:
  "(\<And>x. x \<in> set xs \<Longrightarrow> k (f x) = k x) \<Longrightarrow> k ` set (map f xs) = k ` set xs"
  by (induction xs) auto

lemma ledger_consistent_initial: "ledger_invariant initial_connection"
  by (simp add: ledger_invariant_def ledger_consistent_def initial_connection_def account_ids_def)

lemma ledger_consistent_other_tables:
  assumes "ledger_consistent d"
    and "user_accounts d' = user_accounts d"
    and "credit_transactions d' = credit_transactions d"
    and "{u \<in> set (service_usages d'). su_status u = UsageSuccess}
           \<subseteq> {u \<in> set (service_usages d). su_status u = UsageSuccess}"
  shows "ledger_consistent d'"
proof -
  have ts: "\<And>u. transaction_sum u d' = transaction_sum u d"
    using assms(3) by (rule transaction_sum_cong)
  have ids: "account_ids d' = account_ids d"
    by (simp add: account_ids_def assms(2))
  from assms(1) have
    a: "\<forall>a \<in> set (user_accounts d). acc_balance a = 15 + transaction_sum (acc_userId a) d"
    and t: "tx_userId ` set (credit_transactions d) \<subseteq> account_ids d"
    and s: "su_userId ` {u \<in> set (service_usages d). su_status u = UsageSuccess} \<subseteq> account_ids d"
    by (simp_all add: ledger_consistent_def)
  from s assms(4) have
    "su_userId ` {u \<in> set (service_usages d'). su_status u = UsageSuccess} \<subseteq> account_ids d"
    by blast
  with a t show ?thesis
    by (simp add: ledger_consistent_def ts ids assms(2) assms(3))
qed

lemma ledger_consistent_write:
  assumes inv: "ledger_consistent d"
    and user: "u \<in> account_ids d"
    and g: "\<And>a. a \<in> set (user_accounts d) \<Longrightarrow> acc_userId a = u \<Longrightarrow>
               acc_userId (g a) = u \<and> acc_balance (g a) = acc_balance a + n"
    and t: "tx_userId t = u" "tx_amount t = n"
    and usages: "{x \<in> set us. su_status x = UsageSuccess}
           \<subseteq> {x \<in> set (service_usages d). su_status x = UsageSuccess}"
  shows "ledger_consistent (d\<lparr>
           user_accounts := map (\<lambda>a. if acc_userId a = u then g a else a) (user_accounts d),
           credit_transactions := credit_transactions d @ [t],
           service_usages := us\<rparr>)"
    (is "ledger_consistent ?d'")
proof -
  from inv have
    a: "\<And>a. a \<in> set (user_accounts d) \<Longrightarrow> acc_balance a = 15 + transaction_sum (acc_userId a) d"
    and tx: "tx_userId ` set (credit_transactions d) \<subseteq> account_ids d"
    and s: "su_userId ` {u \<in> set (service_usages d). su_status u = UsageSuccess} \<subseteq> account_ids d"
    by (simp_all add: ledger_consistent_def)
  have ts: "\<And>v. transaction_sum v ?d' = transaction_sum v d + (if u = v then n else 0)"
    by (simp add: transaction_sum_def t)
  have ids: "account_ids ?d' = account_ids d"
  proof -
    have "acc_userId ` set (map (\<lambda>a. if acc_userId a = u then g a else a) (user_accounts d))
             = acc_userId ` set (user_accounts d)"
      by (rule image_map_key) (simp add: g)
    then show ?thesis by (simp add: account_ids_def)
  qed
  have bal: "\<forall>a' \<in> set (user_accounts ?d'). acc_balance a' = 15 + transaction_sum (acc_userId a') ?d'"
  proof
    fix a' assume "a' \<in> set (user_accounts ?d')"
    then obtain a where m: "a \<in> set (user_accounts d)"
      and a': "a' = (if acc_userId a = u then g a else a)" by auto
    show "acc_balance a' = 15 + transaction_sum (acc_userId a') ?d'"
    proof (cases "acc_userId a = u")
      case True
      with g [OF m] a' a [OF m] show ?thesis by (simp add: ts)
    next
      case False
      with a' a [OF m] show ?thesis by (simp add: ts)
    qed
  qed
  have txs: "tx_userId ` set (credit_transactions ?d') \<subseteq> account_ids ?d'"
    unfolding ids using tx user t by auto
  have sus: "su_userId ` {x \<in> set (service_usages ?d'). su_status x = UsageSuccess}
               \<subseteq> account_ids ?d'"
    unfolding ids using s usages by auto
  from bal txs sus show ?thesis
    unfolding ledger_consistent_def by blast
qed




lemma ledger_invariant_updateUserBalance:
  assumes inv: "ledger_invariant c"
  shows "ledger_invariant
           (snd (updateUserBalance userId amount type description relatedOrder now transactionId c))"
proof -
  from inv have idle: "snapshot c = None" and cons: "ledger_consistent (db c)"
    by (simp_all add: ledger_invariant_def)
  show ?thesis
  proof (cases "select_user_account userId (db c)")
    case None
    with inv show ?thesis by (simp add: updateUserBalance_idle [OF idle])
  next
    case (Some acc)
    then have acc: "acc \<in> set (user_accounts (db c))" "acc_userId acc = userId"
      by (auto simp add: select_user_account_def dest: find_Some_set)
    from cons have bal:
      "\<And>a. a \<in> set (user_accounts (db c)) \<Longrightarrow>
            acc_balance a = 15 + transaction_sum (acc_userId a) (db c)"
      by (simp add: ledger_consistent_def)
    have same: "\<And>a. a \<in> set (user_accounts (db c)) \<Longrightarrow> acc_userId a = userId \<Longrightarrow>
            acc_balance a = acc_balance acc"
      using bal acc by simp
    have w: "ledger_consistent ((db c)\<lparr>
           user_accounts :=
             map (\<lambda>a. if acc_userId a = userId
                       then a\<lparr>acc_balance := acc_balance acc + amount, acc_lastUpdated := now\<rparr>
                       else a) (user_accounts (db c)),
           credit_transactions := credit_transactions (db c) @
             [\<lparr>tx_id = transactionId, tx_userId = userId, tx_type = type, tx_amount = amount,
               tx_previousBalance = acc_balance acc,
               tx_currentBalance = acc_balance acc + amount,
               tx_relatedOrder = relatedOrder, tx_description = description,
               tx_createdAt = now\<rparr>],
           service_usages := service_usages (db c)\<rparr>)"
    proof (rule ledger_consistent_write [OF cons, where n = amount])
      show "userId \<in> account_ids (db c)"
        using acc by (auto simp add: account_ids_def)
      show "acc_userId (a\<lparr>acc_balance := acc_balance acc + amount, acc_lastUpdated := now\<rparr>)
              = userId
            \<and> acc_balance (a\<lparr>acc_balance := acc_balance acc + amount, acc_lastUpdated := now\<rparr>)
              = acc_balance a + amount"
        if "a \<in> set (user_accounts (db c))" and "acc_userId a = userId" for a
        using same [OF that] that by simp
    qed simp_all
    show ?thesis
      using inv w idle
      by (simp add: updateUserBalance_idle [OF idle] Some ledger_invariant_def)
  qed
qed


lemma ledger_invariant_refundServiceConsumption:
  assumes inv: "ledger_invariant c"
  shows "ledger_invariant (snd (refundServiceConsumption serviceUsageId reason now transactionId c))"
proof -
  from inv have idle: "snapshot c = None" and cons: "ledger_consistent (db c)"
    by (simp_all add: ledger_invariant_def)
  show ?thesis
  proof (cases "select_service_usage serviceUsageId (db c)")
    case None
    with inv show ?thesis by (simp add: refundServiceConsumption_idle [OF idle])
  next
    case (Some u)
    show ?thesis
    proof (cases "su_status u = UsageSuccess")
      case False
      with inv show ?thesis by (simp add: refundServiceConsumption_idle [OF idle] Some)
    next
      case True
      from Some have "u \<in> set (service_usages (db c))"
        by (auto simp add: select_service_usage_def dest: find_Some_set)
      with True cons have user: "su_userId u \<in> account_ids (db c)"
        by (auto simp add: ledger_consistent_def)
      have w: "ledger_consistent ((db c)\<lparr>
           user_accounts :=
             map (\<lambda>a. if acc_userId a = su_userId u
                       then a\<lparr>acc_balance := acc_balance a + su_creditsUsed u,
                              acc_lastUpdated := now\<rparr>
                       else a) (user_accounts (db c)),
           credit_transactions := credit_transactions (db c) @
             [\<lparr>tx_id = transactionId, tx_userId = su_userId u, tx_type = Reward,
               tx_amount = su_creditsUsed u, tx_previousBalance = 0,
               tx_currentBalance = su_creditsUsed u,
               tx_relatedOrder = Some serviceUsageId,
               tx_description = Some (ServiceRefund (su_serviceKey u) reason),
               tx_createdAt = now\<rparr>],
           service_usages :=
             map (\<lambda>u. if su_id u = serviceUsageId then u\<lparr>su_status := UsageRefunded\<rparr>
                       else u) (service_usages (db c))\<rparr>)"
        by (rule ledger_consistent_write [OF cons user]) auto
      show ?thesis
        using inv w idle
        by (simp add: refundServiceConsumption_idle [OF idle] Some ledger_invariant_def)
    qed
  qed
qed


lemma ledger_invariant_createPayment:
  assumes inv: "ledger_invariant c"
  shows "ledger_invariant (snd (createPayment userId amount method creditsRate newId now c))"
proof -
  from inv have idle: "snapshot c = None" and cons: "ledger_consistent (db c)"
    by (simp_all add: ledger_invariant_def)
  have "\<And>ps. ledger_consistent ((db c)\<lparr>payments := ps\<rparr>)"
    by (rule ledger_consistent_other_tables [OF cons]) simp_all
  with inv idle show ?thesis
    by (simp add: createPayment_result Let_def ledger_invariant_def)
qed


lemma ledger_invariant_updatePaymentStatus:
  assumes inv: "ledger_invariant c"
  shows "ledger_invariant
           (snd (updatePaymentStatus paymentId status transactionId now depositNow depositId c))"
proof -
  from inv have idle: "snapshot c = None" and cons: "ledger_consistent (db c)"
    by (simp_all add: ledger_invariant_def)
  have "\<And>ps. ledger_consistent ((db c)\<lparr>payments := ps\<rparr>)"
    by (rule ledger_consistent_other_tables [OF cons]) simp_all
  with inv idle show ?thesis
    by (simp add: updatePaymentStatus_idle [OF idle] ledger_invariant_def split: option.splits)
qed


lemma ledger_invariant_consumeService:
  assumes inv: "ledger_invariant c"
  shows "ledger_invariant
           (snd (consumeService userId serviceKey credits details withdrawNow withdrawId
                   usageId usageNow c))"
proof -
  from inv have idle: "snapshot c = None" and cons: "ledger_consistent (db c)"
    by (simp_all add: ledger_invariant_def)
  have "\<And>r. su_status r = UsageFailed \<Longrightarrow>
          ledger_consistent ((db c)\<lparr>service_usages := service_usages (db c) @ [r]\<rparr>)"
    by (rule ledger_consistent_other_tables [OF cons]) auto
  with inv idle show ?thesis
    by (simp add: consumeService_idle [OF idle] Let_def ledger_invariant_def)
qed


lemma ledger_invariant_createUser:
  assumes inv: "ledger_invariant c"
  shows "ledger_invariant
           (snd (createUser hashPassword username email password phone newId salt now c))"
proof -
  from inv have idle: "snapshot c = None" and cons: "ledger_consistent (db c)"
    by (simp_all add: ledger_invariant_def)
  let ?user = "\<lparr>user_id = newId, user_username = username, user_email = email,
                  user_phone = phone, user_passwordHash = hashPassword password salt,
                  user_salt = salt, user_isVerified = True, user_verificationToken = None,
                  user_createdAt = now, user_updatedAt = now\<rparr>"
  show ?thesis
  proof (cases "insert_user ?user (db c)")
    case (Inl e)
    with inv show ?thesis by (simp add: createUser_result Let_def)
  next
    case (Inr d)
    from insert_user_tables [OF Inr] have same:
      "user_accounts d = user_accounts (db c)" "credit_transactions d = credit_transactions (db c)"
      "service_usages d = service_usages (db c)"
      by simp_all
    have d: "ledger_consistent d"
      by (rule ledger_consistent_other_tables [OF cons]) (simp_all add: same)
    show ?thesis
    proof (cases "newId \<in> acc_userId ` set (user_accounts d)")
      case True
      with d idle show ?thesis
        by (simp add: createUser_result Let_def Inr ledger_invariant_def)
    next
      case False
      from d have
        a: "\<And>a. a \<in> set (user_accounts d) \<Longrightarrow> acc_balance a = 15 + transaction_sum (acc_userId a) d"
        and tx: "tx_userId ` set (credit_transactions d) \<subseteq> account_ids d"
        and s: "su_userId ` {u \<in> set (service_usages d). su_status u = UsageSuccess} \<subseteq> account_ids d"
        by (simp_all add: ledger_consistent_def)
      from False tx have "newId \<notin> tx_userId ` set (credit_transactions d)"
        by (auto simp add: account_ids_def)
      then have zero: "transaction_sum newId d = 0"
        by (rule transaction_sum_absent)
      let ?d' = "d\<lparr>user_accounts := user_accounts d @
                     [\<lparr>acc_userId = newId, acc_balance = 15, acc_lastUpdated = now\<rparr>]\<rparr>"
      have ts: "\<And>u. transaction_sum u ?d' = transaction_sum u d"
        by (rule transaction_sum_cong) simp
      have ids: "account_ids ?d' = insert newId (account_ids d)"
        by (simp add: account_ids_def)
      have "ledger_consistent ?d'"
        unfolding ledger_consistent_def ids
        using a tx s zero by (auto simp add: ts)
      with idle False show ?thesis
        by (simp add: createUser_result Let_def Inr ledger_invariant_def)
    qed
  qed
qed


lemma ledger_invariant_step: "step c c' \<Longrightarrow> ledger_invariant c \<Longrightarrow> ledger_invariant c'"
  by (induction rule: step.induct)
     (simp_all add: ledger_invariant_createUser ledger_invariant_updateUserBalance
        ledger_invariant_createPayment ledger_invariant_updatePaymentStatus
        ledger_invariant_consumeService ledger_invariant_refundServiceConsumption)


lemma ledger_invariant_reachable: "reachable c \<Longrightarrow> ledger_invariant c"
  by (induction rule: reachable.induct)
     (simp_all add: ledger_consistent_initial ledger_invariant_step)


lemma ledger_invariant_calls:
  "step\<^sup>*\<^sup>* c0 c \<Longrightarrow> ledger_invariant c0 \<Longrightarrow> ledger_invariant c"
  by (induction rule: rtranclp_induct) (simp_all add: ledger_invariant_step)

lemma ledger_invariant_served: "ledger_invariant served_connection"
  by (auto simp add: ledger_invariant_def ledger_consistent_def account_ids_def
        transaction_sum_def served_connection_eq)

lemma reachable_alice: "reachable alice_connection"
  unfolding alice_connection_def
  by (rule reachable_step [OF reachable_initial step_createUser])


lemma reachable_overdrawn: "reachable overdrawn_connection"
  unfolding overdrawn_connection_def
  by (rule reachable_step [OF reachable_alice step_updateUserBalance])


text \<open>
  Claim C2 as stated fails right after registration: the account holds the 15 credits it is
  created with and the user has no audit row.
\<close>

theorem balance_not_transaction_sum:
  "reachable alice_connection
   \<and> map acc_userId (user_accounts (db alice_connection)) = [''user-1'']
   \<and> map acc_balance (user_accounts (db alice_connection)) = [15]
   \<and> transaction_sum ''user-1'' (db alice_connection) = 0"
  using reachable_alice by (simp add: alice_connection_eq transaction_sum_def)


text \<open>
  Claim C2, amended. Start from the empty tables, or from any tables on which the invariant
  of the ledger holds, and call \<^const>\<open>createUser\<close>, \<^const>\<open>updateUserBalance\<close>,
  \<^const>\<open>createPayment\<close>, \<^const>\<open>updatePaymentStatus\<close>, \<^const>\<open>consumeService\<close> and
  \<^const>\<open>refundServiceConsumption\<close> any number of times, in any order. Then the balance of
  an account is 15 plus the sum of the amounts of the user's audit rows, for whole-number
  amounts in the range where the balances of that user have been computed exactly.
\<close>

theorem balance_is_seed_plus_transaction_sum:
  assumes start: "ledger_invariant c0"
    and calls: "step\<^sup>*\<^sup>* c0 c"
    and account: "a \<in> set (user_accounts (db c))"
    and range: "exact_range (acc_userId a) (db c)"
  shows "acc_balance a = 15 + transaction_sum (acc_userId a) (db c)"
  using ledger_invariant_calls [OF calls start] account
  by (simp add: ledger_invariant_def ledger_consistent_def)

theorem balance_is_seed_plus_transaction_sum_witness:
  "ledger_invariant served_connection
   \<and> step\<^sup>*\<^sup>* served_connection
         (snd (refundServiceConsumption ''use-1'' None 3000 ''tx-2'' served_connection))
   \<and> \<lparr>acc_userId = ''user-1'', acc_balance = 15, acc_lastUpdated = 3000\<rparr>
       \<in> set (user_accounts (db
             (snd (refundServiceConsumption ''use-1'' None 3000 ''tx-2'' served_connection))))
   \<and> exact_range ''user-1'' (db
         (snd (refundServiceConsumption ''use-1'' None 3000 ''tx-2'' served_connection)))
   \<and> map tx_amount (credit_transactions (db
         (snd (refundServiceConsumption ''use-1'' None 3000 ''tx-2'' served_connection))))
       = [- 5, 5]
   \<and> (15 :: int) = 15 + transaction_sum ''user-1'' (db
         (snd (refundServiceConsumption ''use-1'' None 3000 ''tx-2'' served_connection)))
   \<and> ledger_invariant initial_connection
   \<and> step\<^sup>*\<^sup>* initial_connection overdrawn_connection
   \<and> \<lparr>acc_userId = ''user-1'', acc_balance = - 1, acc_lastUpdated = 2000\<rparr>
       \<in> set (user_accounts (db overdrawn_connection))
   \<and> exact_range ''user-1'' (db overdrawn_connection)
   \<and> (- 1 :: int) = 15 + transaction_sum ''user-1'' (db overdrawn_connection)"
proof -
  let ?refunded = "snd (refundServiceConsumption ''use-1'' None 3000 ''tx-2'' served_connection)"
  have refunded: "?refunded = served_connection\<lparr>db := (db served_connection)\<lparr>
      user_accounts := [\<lparr>acc_userId = ''user-1'', acc_balance = 15, acc_lastUpdated = 3000\<rparr>],
      credit_transactions :=
        [\<lparr>tx_id = ''tx-1'', tx_userId = ''user-1'', tx_type = Withdrawal,
          tx_amount = - 5, tx_previousBalance = 15, tx_currentBalance = 10,
          tx_relatedOrder = None,
          tx_description = Some (ServiceUse ''ai-image-edit''), tx_createdAt = 2000\<rparr>,
         \<lparr>tx_id = ''tx-2'', tx_userId = ''user-1'', tx_type = Reward, tx_amount = 5,
          tx_previousBalance = 0, tx_currentBalance = 5, tx_relatedOrder = Some ''use-1'',
          tx_description = Some (ServiceRefund ''ai-image-edit'' None), tx_createdAt = 3000\<rparr>],
      service_usages :=
        [\<lparr>su_id = ''use-1'', su_userId = ''user-1'', su_serviceKey = ''ai-image-edit'',
          su_creditsUsed = 5, su_status = UsageRefunded, su_details = None,
          su_createdAt = 2001\<rparr>]\<rparr>\<rparr>"
    by (simp add: refundServiceConsumption_idle served_connection_eq select_service_usage_def)
  have s1: "step\<^sup>*\<^sup>* served_connection ?refunded"
    by (rule r_into_rtranclp) (rule step_refundServiceConsumption)
  have m1: "\<lparr>acc_userId = ''user-1'', acc_balance = 15, acc_lastUpdated = 3000\<rparr>
       \<in> set (user_accounts (db ?refunded))"
    by (simp add: refunded)
  have r1: "exact_range ''user-1'' (db ?refunded)"
    by (simp add: refunded exact_range_def)
  have rows: "map tx_amount (credit_transactions (db ?refunded)) = [- 5, 5]"
    by (simp add: refunded)
  have r1': "exact_range
        (acc_userId \<lparr>acc_userId = ''user-1'', acc_balance = 15, acc_lastUpdated = 3000\<rparr>)
        (db ?refunded)"
    using r1 by simp
  from balance_is_seed_plus_transaction_sum [OF ledger_invariant_served s1 m1 r1']
  have e1: "(15 :: int) = 15 + transaction_sum ''user-1'' (db ?refunded)"
    by simp
  have s2: "step\<^sup>*\<^sup>* initial_connection overdrawn_connection"
    unfolding overdrawn_connection_def alice_connection_def
    by (rule rtranclp.rtrancl_into_rtrancl [OF r_into_rtranclp])
       (rule step_createUser, rule step_updateUserBalance)
  have m2: "\<lparr>acc_userId = ''user-1'', acc_balance = - 1, acc_lastUpdated = 2000\<rparr>
       \<in> set (user_accounts (db overdrawn_connection))"
    by (simp add: overdrawn_connection_eq)
  have r2: "exact_range ''user-1'' (db overdrawn_connection)"
    by (simp add: overdrawn_connection_eq exact_range_def)
  have r2': "exact_range
        (acc_userId \<lparr>acc_userId = ''user-1'', acc_balance = - 1, acc_lastUpdated = 2000\<rparr>)
        (db overdrawn_connection)"
    using r2 by simp
  from balance_is_seed_plus_transaction_sum [OF ledger_consistent_initial s2 m2 r2']
  have e2: "(- 1 :: int) = 15 + transaction_sum ''user-1'' (db overdrawn_connection)"
    by simp
  from ledger_invariant_served s1 m1 r1 rows e1 ledger_consistent_initial s2 m2 r2 e2
  show ?thesis by blast
qed

end
